theory Spec2Isabelle
  imports Complex_Main
begin

section \<open>Values of the scripts\<close>

text \<open>
  The four casualty folds of the repository are embedded here:
  \<^item> \<open>extract_yearly_data_by_category\<close> (yearly_trends_analysis.py),
  \<^item> \<open>extract_bike_data_by_year\<close> (bike_vs_ebike_analysis.py),
  \<^item> \<open>extract_and_categorize_vehicles\<close> (pedestrian_analysis_consolidated.py),
  \<^item> \<open>extract_vehicle_types\<close> (pedestrian_analysis.py).

  Python floats are modelled as exact rationals: rounding is not part of the model.
  A numeric cell is the value that \<open>pd.to_numeric(cell, errors='coerce')\<close> returns:
  a finite number, an infinity, or NaN (what a missing or non-numeric cell is coerced to).
  A vehicle cell is \<open>None\<close> when \<open>pd.notna\<close> fails on it and \<open>Some s\<close> otherwise,
  \<open>s\<close> being \<open>str(cell)\<close>. A string is the list of the bytes of its UTF-8 encoding.
\<close>

datatype py_error = ValueError | TypeError | OverflowError | ZeroDivisionError

datatype pynum = Num rat | NaN | PosInf | NegInf

record tally =
  injured :: rat
  killed :: rat

record row =
  crash_date :: "int option"
  injured_cell :: pynum
  killed_cell :: pynum
  year_cell :: pynum
  vehicle_cells :: "string option list"

text \<open>
  \<open>crash_date\<close> is the CRASH DATE column as whole days since 2025-01-01
  (\<open>None\<close> for NaT); \<open>year_cell\<close> is the YEAR column; \<open>vehicle_cells\<close> are the cells
  of the columns listed in \<open>vehicle_cols\<close>, in that order.
\<close>

type_synonym yearly_table = "string \<rightharpoonup> (int \<rightharpoonup> tally)"
type_synonym flat_table = "string \<rightharpoonup> tally"

subsection \<open>Python primitives\<close>

text \<open>
  The characters that \<open>str.isspace\<close> accepts, and that \<open>str.strip()\<close> therefore removes,
  each as its UTF-8 encoding: U+0009 to U+000D, U+001C to U+001F, U+0020, U+0085, U+00A0,
  U+1680, U+2000 to U+200A, U+2028, U+2029, U+202F, U+205F and U+3000.
\<close>

definition whitespace :: "string list" where
  "whitespace =
    [[CHR 0x09], [CHR 0x0A], [CHR 0x0B], [CHR 0x0C], [CHR 0x0D],
     [CHR 0x1C], [CHR 0x1D], [CHR 0x1E], [CHR 0x1F], [CHR 0x20],
     [CHR 0xC2, CHR 0x85], [CHR 0xC2, CHR 0xA0],
     [CHR 0xE1, CHR 0x9A, CHR 0x80],
     [CHR 0xE2, CHR 0x80, CHR 0x80], [CHR 0xE2, CHR 0x80, CHR 0x81],
     [CHR 0xE2, CHR 0x80, CHR 0x82], [CHR 0xE2, CHR 0x80, CHR 0x83],
     [CHR 0xE2, CHR 0x80, CHR 0x84], [CHR 0xE2, CHR 0x80, CHR 0x85],
     [CHR 0xE2, CHR 0x80, CHR 0x86], [CHR 0xE2, CHR 0x80, CHR 0x87],
     [CHR 0xE2, CHR 0x80, CHR 0x88], [CHR 0xE2, CHR 0x80, CHR 0x89],
     [CHR 0xE2, CHR 0x80, CHR 0x8A],
     [CHR 0xE2, CHR 0x80, CHR 0xA8], [CHR 0xE2, CHR 0x80, CHR 0xA9],
     [CHR 0xE2, CHR 0x80, CHR 0xAF], [CHR 0xE2, CHR 0x81, CHR 0x9F],
     [CHR 0xE3, CHR 0x80, CHR 0x80]]"

text \<open>The encoded character of the list \<open>ws\<close> that the string \<open>s\<close> starts with, if any.\<close>

definition leading :: "string list \<Rightarrow> string \<Rightarrow> string option" where
  "leading ws s = find (\<lambda>w. w \<noteq> [] \<and> take (length w) s = w) ws"

function strip_leading :: "string list \<Rightarrow> string \<Rightarrow> string" where
  "strip_leading ws s =
     (case leading ws s of
        None \<Rightarrow> s
      | Some w \<Rightarrow> strip_leading ws (drop (length w) s))"
  by pat_completeness auto
termination
proof (relation "measure (\<lambda>(ws, s). length s)")
  show "wf (measure (\<lambda>(ws, s). length s))" by simp
next
  fix ws :: "string list" and s w :: string
  assume "leading ws s = Some w"
  then have w: "w \<noteq> []" "take (length w) s = w"
    by (auto simp: leading_def find_Some_iff)
  then have "s \<noteq> []" by auto
  with w show "((ws, drop (length w) s), (ws, s)) \<in> measure (\<lambda>(ws, s). length s)"
    by simp
qed

declare strip_leading.simps [simp del]

text \<open>
  \<open>str.strip()\<close>: the whitespace characters are removed from the front, then from the back
  (on the reversed bytes, against the reversed encodings).
\<close>

definition strip :: "string \<Rightarrow> string" where
  "strip s = rev (strip_leading (map rev whitespace) (rev (strip_leading whitespace s)))"

text \<open>
  \<open>str.upper()\<close> on the ASCII letters. It is applied only in the test against the
  sentinels \<open>UNKNOWN\<close> and \<open>NAN\<close>; no character outside ASCII has an upper case made of
  the letters of these two words, so the outcome of the test is that of Python.
\<close>

definition upper_char :: "char \<Rightarrow> char" where
  "upper_char c =
     (case map_of (zip ''abcdefghijklmnopqrstuvwxyz'' ''ABCDEFGHIJKLMNOPQRSTUVWXYZ'') c of
        None \<Rightarrow> c
      | Some u \<Rightarrow> u)"

definition upper :: "string \<Rightarrow> string" where
  "upper s = map upper_char s"

text \<open>\<open>x or 0\<close>: a falsy number (zero) is replaced by 0; NaN and the infinities are truthy.\<close>

definition or_zero :: "pynum \<Rightarrow> pynum" where
  "or_zero x = (if x = Num 0 then Num 0 else x)"

text \<open>\<open>int(x)\<close>: truncation towards zero; NaN raises ValueError, an infinity OverflowError.\<close>

definition py_int :: "pynum \<Rightarrow> py_error + int" where
  "py_int x =
     (case x of
        Num q \<Rightarrow> Inr (if 0 \<le> q then \<lfloor>q\<rfloor> else \<lceil>q\<rceil>)
      | NaN \<Rightarrow> Inl ValueError
      | PosInf \<Rightarrow> Inl OverflowError
      | NegInf \<Rightarrow> Inl OverflowError)"

text \<open>\<open>a / b\<close> with \<open>b\<close> a length: ZeroDivisionError when \<open>b\<close> is zero.\<close>

definition py_truediv :: "rat \<Rightarrow> int \<Rightarrow> py_error + rat" where
  "py_truediv a b = (if b = 0 then Inl ZeroDivisionError else Inr (a / of_int b))"

text \<open>\<open>list(dict.fromkeys(xs))\<close>: the first occurrence of every element, in order.\<close>

fun fromkeys :: "'a list \<Rightarrow> 'a list" where
  "fromkeys [] = []"
| "fromkeys (x # xs) = x # fromkeys (filter (\<lambda>y. y \<noteq> x) xs)"

subsection \<open>Lookup tables\<close>

definition get_vehicle_category_mapping :: "(string \<times> string) list" where
  "get_vehicle_category_mapping =
    [(''Sedan'', ''Passenger Vehicles''),
     (''SEDAN'', ''Passenger Vehicles''),
     (''4 dr sedan'', ''Passenger Vehicles''),
     (''Station Wagon/Sport Utility Vehicle'', ''Passenger Vehicles''),
     (''SPORT UTILITY / STATION WAGON'', ''Passenger Vehicles''),
     (''PASSENGER VEHICLE'', ''Passenger Vehicles''),
     (''Pick-up Truck'', ''Passenger Vehicles''),
     (''PICK-UP TRUCK'', ''Passenger Vehicles''),
     (''PK'', ''Passenger Vehicles''),
     (''Convertible'', ''Passenger Vehicles''),
     (''Taxi'', ''Taxi/Livery''),
     (''TAXI'', ''Taxi/Livery''),
     (''LIVERY VEHICLE'', ''Taxi/Livery''),
     (''Bus'', ''Large/Commercial Vehicles''),
     (''BUS'', ''Large/Commercial Vehicles''),
     (''Box Truck'', ''Large/Commercial Vehicles''),
     (''BOX TRUCK'', ''Large/Commercial Vehicles''),
     (''Dump'', ''Large/Commercial Vehicles''),
     (''DUMP'', ''Large/Commercial Vehicles''),
     (''Tractor Truck Diesel'', ''Large/Commercial Vehicles''),
     (''TRACTOR TRUCK DIESEL'', ''Large/Commercial Vehicles''),
     (''Garbage or Refuse'', ''Large/Commercial Vehicles''),
     (''GARBAGE OR REFUSE'', ''Large/Commercial Vehicles''),
     (''LARGE COM VEH(6 OR MORE TIRES)'', ''Large/Commercial Vehicles''),
     (''SMALL COM VEH(4 TIRES)'', ''Large/Commercial Vehicles''),
     (''Ambulance'', ''Large/Commercial Vehicles''),
     (''AMBULANCE'', ''Large/Commercial Vehicles''),
     (''Fire Truck'', ''Large/Commercial Vehicles''),
     (''FIRE TRUCK'', ''Large/Commercial Vehicles''),
     (''Flat Bed'', ''Large/Commercial Vehicles''),
     (''Motorcycle'', ''Motorcycles''),
     (''MOTORCYCLE'', ''Motorcycles''),
     (''Motorbike'', ''Motorcycles''),
     (''Moped'', ''Motorcycles''),
     (''MOPED'', ''Motorcycles''),
     (''Bike'', ''Bicycles/Scooters''),
     (''BIKE'', ''Bicycles/Scooters''),
     (''E-Bike'', ''Bicycles/Scooters''),
     (''E-BIKE'', ''Bicycles/Scooters''),
     (''E-Scooter'', ''Bicycles/Scooters''),
     (''E-SCOOTER'', ''Bicycles/Scooters''),
     (''Van'', ''Van''),
     (''VAN'', ''Van''),
     (''UNKNOWN'', ''Other/Unknown''),
     (''OTHER'', ''Other/Unknown'')]"

definition bike_mapping :: "(string \<times> string) list" where
  "bike_mapping =
    [(''Bike'', ''Traditional Bicycle''),
     (''BIKE'', ''Traditional Bicycle''),
     (''E-Bike'', ''E-Bike''),
     (''E-BIKE'', ''E-Bike''),
     (''E-Scooter'', ''E-Scooter''),
     (''E-SCOOTER'', ''E-Scooter'')]"

text \<open>\<open>category_mapping.get(vehicle_type, 'Other/Unknown')\<close>\<close>

definition category_of :: "string \<Rightarrow> string" where
  "category_of vehicle_type =
     (case map_of get_vehicle_category_mapping vehicle_type of
        None \<Rightarrow> ''Other/Unknown''
      | Some category \<Rightarrow> category)"

text \<open>
  The fine-grained lookup of \<open>extract_bike_data_by_year\<close>: the guard
  \<open>str(vehicle).strip() in bike_mapping\<close> followed by \<open>bike_mapping[...]\<close>.
  \<open>None\<close> is a label that the guard drops.
\<close>

definition bike_type_of :: "string \<Rightarrow> string option" where
  "bike_type_of vehicle_type = map_of bike_mapping vehicle_type"

subsection \<open>Reading the vehicle cells of a row\<close>

text \<open>
  The condition \<open>pd.notna(vehicle) and str(vehicle).strip() and
  str(vehicle).strip().upper() not in ['', 'UNKNOWN', 'NAN']\<close>.
\<close>

definition valid_vehicle :: "string option \<Rightarrow> bool" where
  "valid_vehicle vehicle =
     (case vehicle of
        None \<Rightarrow> False
      | Some s \<Rightarrow> strip s \<noteq> [] \<and> upper (strip s) \<notin> set ['''', ''UNKNOWN'', ''NAN''])"

text \<open>The label loop of \<open>extract_vehicle_types\<close>: the stripped raw labels.\<close>

fun raw_vehicles_in_collision :: "string option list \<Rightarrow> string list" where
  "raw_vehicles_in_collision [] = []"
| "raw_vehicles_in_collision (None # cells) = raw_vehicles_in_collision cells"
| "raw_vehicles_in_collision (Some s # cells) =
     (if valid_vehicle (Some s) then strip s # raw_vehicles_in_collision cells
      else raw_vehicles_in_collision cells)"

text \<open>
  The label loop of \<open>extract_yearly_data_by_category\<close> and of
  \<open>extract_and_categorize_vehicles\<close>: the categories of the valid labels.
\<close>

fun vehicles_in_collision :: "string option list \<Rightarrow> string list" where
  "vehicles_in_collision [] = []"
| "vehicles_in_collision (None # cells) = vehicles_in_collision cells"
| "vehicles_in_collision (Some s # cells) =
     (if valid_vehicle (Some s) then category_of (strip s) # vehicles_in_collision cells
      else vehicles_in_collision cells)"

text \<open>The label loop of \<open>extract_bike_data_by_year\<close>: only keys of \<open>bike_mapping\<close> count.\<close>

fun bikes_in_collision :: "string option list \<Rightarrow> string list" where
  "bikes_in_collision [] = []"
| "bikes_in_collision (None # cells) = bikes_in_collision cells"
| "bikes_in_collision (Some s # cells) =
     (case bike_type_of (strip s) of
        None \<Rightarrow> bikes_in_collision cells
      | Some bike_type \<Rightarrow> bike_type # bikes_in_collision cells)"

subsection \<open>Safe conversion of the casualty numbers\<close>

text \<open>
  The \<open>try\<close> block of the yearly folds: the three conversions run in order, the handler
  \<open>except (ValueError, TypeError): continue\<close> catches the first two error classes
  (result \<open>Inr None\<close>: the row is skipped); any other exception leaves the function.
\<close>

definition except_continue :: "py_error \<Rightarrow> py_error + 'a option" where
  "except_continue e = (if e = ValueError \<or> e = TypeError then Inr None else Inl e)"

definition convert_with_year :: "row \<Rightarrow> py_error + (int \<times> int \<times> int) option" where
  "convert_with_year r =
     (case py_int (or_zero (injured_cell r)) of
        Inl e \<Rightarrow> except_continue e
      | Inr i \<Rightarrow>
          (case py_int (or_zero (killed_cell r)) of
             Inl e \<Rightarrow> except_continue e
           | Inr k \<Rightarrow>
               (case py_int (year_cell r) of
                  Inl e \<Rightarrow> except_continue e
                | Inr y \<Rightarrow> Inr (Some (i, k, y)))))"

text \<open>
  The \<open>try\<close> block of the two folds without a year: the handler is
  \<open>except (ValueError, TypeError): injured = killed = 0\<close>.
\<close>

definition except_zero :: "py_error \<Rightarrow> py_error + int \<times> int" where
  "except_zero e = (if e = ValueError \<or> e = TypeError then Inr (0, 0) else Inl e)"

definition convert_counts :: "row \<Rightarrow> py_error + int \<times> int" where
  "convert_counts r =
     (case py_int (or_zero (injured_cell r)) of
        Inl e \<Rightarrow> except_zero e
      | Inr i \<Rightarrow>
          (case py_int (or_zero (killed_cell r)) of
             Inl e \<Rightarrow> except_zero e
           | Inr k \<Rightarrow> Inr (i, k)))"

subsection \<open>The projection factor\<close>

text \<open>
  \<open>latest_date = df['CRASH DATE'].max()\<close> skips NaT and is NaT when no date is left;
  \<open>days_in_2025 = (latest_date - pd.Timestamp("2025-01-01")).days + 1\<close> is then NaN,
  the comparison \<open>days_in_2025 > 0\<close> is false and the factor is 1.0.
\<close>

fun latest_date :: "row list \<Rightarrow> int option" where
  "latest_date [] = None"
| "latest_date (r # rs) =
     (case (crash_date r, latest_date rs) of
        (None, m) \<Rightarrow> m
      | (Some d, None) \<Rightarrow> Some d
      | (Some d, Some m) \<Rightarrow> Some (max d m))"

definition days_in_2025 :: "row list \<Rightarrow> int option" where
  "days_in_2025 df = map_option (\<lambda>d. d + 1) (latest_date df)"

definition projection_factor :: "int option \<Rightarrow> py_error + rat" where
  "projection_factor days =
     (case days of
        None \<Rightarrow> Inr 1
      | Some d \<Rightarrow> (if d > 0 then py_truediv 365 d else Inr 1))"

text \<open>Lines \<open>if year == 2025: injured *= projection_factor; killed *= projection_factor\<close>.\<close>

definition apply_projection :: "rat \<Rightarrow> int \<Rightarrow> int \<times> int \<Rightarrow> rat \<times> rat" where
  "apply_projection pf year ik =
     (if year = 2025 then (of_int (fst ik) * pf, of_int (snd ik) * pf)
      else (of_int (fst ik), of_int (snd ik)))"

subsection \<open>Accumulating into the tables\<close>

definition zero_tally :: tally where
  "zero_tally = \<lparr>injured = 0, killed = 0\<rparr>"

text \<open>
  \<open>yearly_data[category][year]['injured'] += a; ...['killed'] += b\<close> on the nested
  \<open>defaultdict\<close>: a missing inner dictionary or tally is created on access.
\<close>

definition add_yearly :: "int \<Rightarrow> rat \<Rightarrow> rat \<Rightarrow> yearly_table \<Rightarrow> string \<Rightarrow> yearly_table" where
  "add_yearly year a b tbl category =
     (let inner = (case tbl category of None \<Rightarrow> Map.empty | Some m \<Rightarrow> m);
          t = (case inner year of None \<Rightarrow> zero_tally | Some t \<Rightarrow> t)
      in tbl(category \<mapsto> inner(year \<mapsto> \<lparr>injured = injured t + a, killed = killed t + b\<rparr>)))"

definition add_flat :: "rat \<Rightarrow> rat \<Rightarrow> flat_table \<Rightarrow> string \<Rightarrow> flat_table" where
  "add_flat a b tbl key =
     (let t = (case tbl key of None \<Rightarrow> zero_tally | Some t \<Rightarrow> t)
      in tbl(key \<mapsto> \<lparr>injured = injured t + a, killed = killed t + b\<rparr>))"

text \<open>
  The tail of the loop body of the yearly folds, from the emptiness check on: skip the
  row when no label is left, remove duplicates, split, and add to every unique category.
\<close>

definition distribute_yearly ::
  "int \<Rightarrow> rat \<Rightarrow> rat \<Rightarrow> string list \<Rightarrow> yearly_table \<Rightarrow> py_error + yearly_table" where
  "distribute_yearly year n_injured n_killed found tbl =
     (if found = [] then Inr tbl
      else
        (let unique = fromkeys found in
         case py_truediv n_injured (int (length unique)) of
           Inl e \<Rightarrow> Inl e
         | Inr a \<Rightarrow>
             (case py_truediv n_killed (int (length unique)) of
                Inl e \<Rightarrow> Inl e
              | Inr b \<Rightarrow> Inr (foldl (add_yearly year a b) tbl unique))))"

text \<open>The same tail in \<open>extract_and_categorize_vehicles\<close>, on the table without years.\<close>

definition distribute_flat ::
  "rat \<Rightarrow> rat \<Rightarrow> string list \<Rightarrow> flat_table \<Rightarrow> py_error + flat_table" where
  "distribute_flat n_injured n_killed found tbl =
     (if found = [] then Inr tbl
      else
        (let unique = fromkeys found in
         case py_truediv n_injured (int (length unique)) of
           Inl e \<Rightarrow> Inl e
         | Inr a \<Rightarrow>
             (case py_truediv n_killed (int (length unique)) of
                Inl e \<Rightarrow> Inl e
              | Inr b \<Rightarrow> Inr (foldl (add_flat a b) tbl unique))))"

text \<open>The tail in \<open>extract_vehicle_types\<close>: no duplicate removal, every listed label counts.\<close>

definition distribute_raw ::
  "rat \<Rightarrow> rat \<Rightarrow> string list \<Rightarrow> flat_table \<Rightarrow> py_error + flat_table" where
  "distribute_raw n_injured n_killed found tbl =
     (if found = [] then Inr tbl
      else
        (case py_truediv n_injured (int (length found)) of
           Inl e \<Rightarrow> Inl e
         | Inr a \<Rightarrow>
             (case py_truediv n_killed (int (length found)) of
                Inl e \<Rightarrow> Inl e
              | Inr b \<Rightarrow> Inr (foldl (add_flat a b) tbl found))))"

subsection \<open>The loop bodies\<close>

definition yearly_row :: "rat \<Rightarrow> yearly_table \<Rightarrow> row \<Rightarrow> py_error + yearly_table" where
  "yearly_row pf tbl r =
     (case convert_with_year r of
        Inl e \<Rightarrow> Inl e
      | Inr None \<Rightarrow> Inr tbl
      | Inr (Some (i, k, year)) \<Rightarrow>
          (let scaled = apply_projection pf year (i, k)
           in distribute_yearly year (fst scaled) (snd scaled)
                (vehicles_in_collision (vehicle_cells r)) tbl))"

definition bike_row :: "rat \<Rightarrow> yearly_table \<Rightarrow> row \<Rightarrow> py_error + yearly_table" where
  "bike_row pf tbl r =
     (case convert_with_year r of
        Inl e \<Rightarrow> Inl e
      | Inr None \<Rightarrow> Inr tbl
      | Inr (Some (i, k, year)) \<Rightarrow>
          (if year < 2020 then Inr tbl
           else
             (let scaled = apply_projection pf year (i, k)
              in distribute_yearly year (fst scaled) (snd scaled)
                   (bikes_in_collision (vehicle_cells r)) tbl)))"

definition category_row :: "flat_table \<Rightarrow> row \<Rightarrow> py_error + flat_table" where
  "category_row tbl r =
     (case convert_counts r of
        Inl e \<Rightarrow> Inl e
      | Inr (i, k) \<Rightarrow>
          distribute_flat (of_int i) (of_int k) (vehicles_in_collision (vehicle_cells r)) tbl)"

definition vehicle_row :: "flat_table \<Rightarrow> row \<Rightarrow> py_error + flat_table" where
  "vehicle_row tbl r =
     (case convert_counts r of
        Inl e \<Rightarrow> Inl e
      | Inr (i, k) \<Rightarrow>
          distribute_raw (of_int i) (of_int k) (raw_vehicles_in_collision (vehicle_cells r)) tbl)"

subsection \<open>The loops over the data frame\<close>

text \<open>\<open>for _, row in df.iterrows()\<close>: an exception that leaves the body ends the run.\<close>

fun iterrows :: "('t \<Rightarrow> row \<Rightarrow> py_error + 't) \<Rightarrow> 't \<Rightarrow> row list \<Rightarrow> py_error + 't" where
  "iterrows body tbl [] = Inr tbl"
| "iterrows body tbl (r # rs) =
     (case body tbl r of
        Inl e \<Rightarrow> Inl e
      | Inr tbl' \<Rightarrow> iterrows body tbl' rs)"

definition extract_yearly_data_by_category :: "row list \<Rightarrow> py_error + yearly_table" where
  "extract_yearly_data_by_category df =
     (case projection_factor (days_in_2025 df) of
        Inl e \<Rightarrow> Inl e
      | Inr pf \<Rightarrow> iterrows (yearly_row pf) Map.empty df)"

definition extract_bike_data_by_year :: "row list \<Rightarrow> py_error + yearly_table" where
  "extract_bike_data_by_year df =
     (case projection_factor (days_in_2025 df) of
        Inl e \<Rightarrow> Inl e
      | Inr pf \<Rightarrow> iterrows (bike_row pf) Map.empty df)"

definition extract_and_categorize_vehicles :: "row list \<Rightarrow> py_error + flat_table" where
  "extract_and_categorize_vehicles df = iterrows category_row Map.empty df"

definition extract_vehicle_types :: "row list \<Rightarrow> py_error + flat_table" where
  "extract_vehicle_types df = iterrows vehicle_row Map.empty df"

text \<open>Reading a table the way the reports do: a missing tally counts as zero.\<close>

definition tally_at :: "yearly_table \<Rightarrow> string \<Rightarrow> int \<Rightarrow> tally" where
  "tally_at tbl category year =
     (case tbl category of
        None \<Rightarrow> zero_tally
      | Some m \<Rightarrow> (case m year of None \<Rightarrow> zero_tally | Some t \<Rightarrow> t))"

definition flat_at :: "flat_table \<Rightarrow> string \<Rightarrow> tally" where
  "flat_at tbl key = (case tbl key of None \<Rightarrow> zero_tally | Some t \<Rightarrow> t)"

subsection \<open>The projector of the specification\<close>

text \<open>
  The source has no function that rescales a finished table: it multiplies the counts of
  every 2025 row before adding them. The projector of the specification (section 4.3) is
  written here after the specification's words, to be compared with what the source does:
  both fields of every category's tally for the incomplete bucket are multiplied by the
  factor, all other buckets are left as they are.
\<close>

definition project_spec :: "rat \<Rightarrow> int \<Rightarrow> yearly_table \<Rightarrow> yearly_table" where
  "project_spec factor incomplete_bucket tbl =
     (\<lambda>category.
        map_option
          (\<lambda>m. (\<lambda>bucket.
             if bucket = incomplete_bucket
             then map_option
                    (\<lambda>t. \<lparr>injured = injured t * factor, killed = killed t * factor\<rparr>)
                    (m bucket)
             else m bucket))
          (tbl category))"

subsection \<open>Sample rows\<close>

definition row_2019_bike :: row where
  "row_2019_bike = \<lparr>crash_date = Some (-2000), injured_cell = Num 2, killed_cell = Num 1,
     year_cell = Num 2019, vehicle_cells = [Some ''Bike'', Some ''E-Bike'', None, None, None]\<rparr>"

definition row_missing_injured :: row where
  "row_missing_injured = \<lparr>crash_date = Some (-1300), injured_cell = NaN, killed_cell = Num 1,
     year_cell = Num 2021, vehicle_cells = [Some ''Bike'', None, None, None, None]\<rparr>"

text \<open>
  In \<open>row_sedan_bike\<close> the second label is \<open>SEDAN\<close> between a no-break space (U+00A0)
  and a next-line character (U+0085); in \<open>row_no_vehicle\<close> the last cell is a no-break
  space, an em space (U+2003) and a blank.
\<close>

definition row_sedan_bike :: row where
  "row_sedan_bike = \<lparr>crash_date = Some (-1400), injured_cell = Num 3, killed_cell = Num 1,
     year_cell = Num 2021,
     vehicle_cells =
       [Some ''Sedan'',
        Some [CHR 0xC2, CHR 0xA0, CHR ''S'', CHR ''E'', CHR ''D'', CHR ''A'', CHR ''N'',
              CHR 0xC2, CHR 0x85],
        Some ''Bike'', None, Some ''unknown'']\<rparr>"

definition row_negative :: row where
  "row_negative = \<lparr>crash_date = Some (-1400), injured_cell = Num (-1), killed_cell = Num 1,
     year_cell = Num 2021, vehicle_cells = [Some ''Sedan'', None, None, None, None]\<rparr>"

definition row_no_vehicle :: row where
  "row_no_vehicle = \<lparr>crash_date = Some (-1400), injured_cell = Num 2, killed_cell = Num 1,
     year_cell = Num 2021,
     vehicle_cells =
       [None, Some [], Some '' Unknown '', Some ''NaN'',
        Some [CHR 0xC2, CHR 0xA0, CHR 0xE2, CHR 0x80, CHR 0x83, CHR 0x20]]\<rparr>"

text \<open>Rows with an infinite injured count (a cell such as \<open>inf\<close> in the CSV file).\<close>

definition row_no_vehicle_inf :: row where
  "row_no_vehicle_inf = \<lparr>crash_date = Some (-1400), injured_cell = PosInf, killed_cell = Num 1,
     year_cell = Num 2021,
     vehicle_cells =
       [None, Some [], Some '' Unknown '', Some ''NaN'',
        Some [CHR 0xC2, CHR 0xA0, CHR 0xE2, CHR 0x80, CHR 0x83, CHR 0x20]]\<rparr>"

definition row_2019_inf :: row where
  "row_2019_inf = \<lparr>crash_date = Some (-2000), injured_cell = PosInf, killed_cell = Num 1,
     year_cell = Num 2019, vehicle_cells = [Some ''Bike'', None, None, None, None]\<rparr>"

definition row_2025_van :: row where
  "row_2025_van = \<lparr>crash_date = Some 145, injured_cell = Num 4, killed_cell = Num 2,
     year_cell = Num 2025, vehicle_cells = [Some ''Van'', Some ''Taxi'', None, None, None]\<rparr>"

text \<open>
  The scenario of section 8 of the specification: three rows of one year with the labels
  \<open>["Bike"]\<close>, \<open>["Bike", "Car"]\<close>, \<open>["BIKE", "E-BIKE"]\<close>, 10, 6 and 9 injured, nobody
  killed.
\<close>

definition bike_scenario :: "int \<Rightarrow> int \<Rightarrow> row list" where
  "bike_scenario day year =
     [\<lparr>crash_date = Some day, injured_cell = Num 10, killed_cell = Num 0,
       year_cell = Num (of_int year), vehicle_cells = [Some ''Bike'', None, None, None, None]\<rparr>,
      \<lparr>crash_date = Some day, injured_cell = Num 6, killed_cell = Num 0,
       year_cell = Num (of_int year),
       vehicle_cells = [Some ''Bike'', Some ''Car'', None, None, None]\<rparr>,
      \<lparr>crash_date = Some day, injured_cell = Num 9, killed_cell = Num 0,
       year_cell = Num (of_int year),
       vehicle_cells = [Some ''BIKE'', Some ''E-BIKE'', None, None, None]\<rparr>]"

subsection \<open>The invariant of a tally\<close>

text \<open>Section 3 of the specification: both fields of every tally of a table are at least 0.\<close>

definition nonneg_table :: "yearly_table \<Rightarrow> bool" where
  "nonneg_table tbl =
     (\<forall>category m year t. tbl category = Some m \<longrightarrow> m year = Some t
        \<longrightarrow> 0 \<le> injured t \<and> 0 \<le> killed t)"

section \<open>Properties\<close>

subsection \<open>Evaluating the sample rows\<close>

lemmas strip_eval = strip_def strip_leading.simps leading_def whitespace_def

lemma strip_non_ascii:
  "strip [CHR 0xC2, CHR 0xA0, CHR ''S'', CHR ''E'', CHR ''D'', CHR ''A'', CHR ''N'',
          CHR 0xC2, CHR 0x85] = ''SEDAN'' \<and>
   strip [CHR 0xC2, CHR 0xA0, CHR 0xE2, CHR 0x80, CHR 0x83, CHR 0x20] = [] \<and>
   strip '' Unknown '' = ''Unknown'' \<and> strip ''NaN'' = ''NaN'' \<and> strip [] = []"
  by (simp add: strip_eval)

lemma row_sedan_bike_convert: "convert_with_year row_sedan_bike = Inr (Some (3, 1, 2021))"
  by (simp add: convert_with_year_def row_sedan_bike_def or_zero_def py_int_def)

lemma row_sedan_bike_counts: "convert_counts row_sedan_bike = Inr (3, 1)"
  by (simp add: convert_counts_def row_sedan_bike_def or_zero_def py_int_def)

lemma row_sedan_bike_raw:
  "raw_vehicles_in_collision (vehicle_cells row_sedan_bike) = [''Sedan'', ''SEDAN'', ''Bike'']"
  by (simp add: row_sedan_bike_def valid_vehicle_def strip_eval upper_def upper_char_def)

lemma row_sedan_bike_found:
  "vehicles_in_collision (vehicle_cells row_sedan_bike) =
     [''Passenger Vehicles'', ''Passenger Vehicles'', ''Bicycles/Scooters'']"
  by (simp add: row_sedan_bike_def valid_vehicle_def strip_eval upper_def
        upper_char_def category_of_def get_vehicle_category_mapping_def)

lemma row_2025_van_found:
  "vehicles_in_collision (vehicle_cells row_2025_van) = [''Van'', ''Taxi/Livery'']"
  by (simp add: row_2025_van_def valid_vehicle_def strip_eval upper_def
        upper_char_def category_of_def get_vehicle_category_mapping_def)

lemma row_2025_van_convert: "convert_with_year row_2025_van = Inr (Some (4, 2, 2025))"
  by (simp add: convert_with_year_def row_2025_van_def or_zero_def py_int_def)

lemma row_negative_found:
  "vehicles_in_collision (vehicle_cells row_negative) = [''Passenger Vehicles'']"
  by (simp add: row_negative_def valid_vehicle_def strip_eval upper_def
        upper_char_def category_of_def get_vehicle_category_mapping_def)

lemma row_negative_convert: "convert_with_year row_negative = Inr (Some (-1, 1, 2021))"
  by (simp add: convert_with_year_def row_negative_def or_zero_def py_int_def ceiling_def)

lemma sentinel_cells_found:
  "vehicles_in_collision
     [None, Some [], Some '' Unknown '', Some ''NaN'',
      Some [CHR 0xC2, CHR 0xA0, CHR 0xE2, CHR 0x80, CHR 0x83, CHR 0x20]] = []"
  by (simp add: valid_vehicle_def strip_eval upper_def upper_char_def)

subsection \<open>The classifiers\<close>

text \<open>
  Claim C4 as stated fails twice. The coarse table has the explicit key \<open>OTHER\<close> (a label
  that passes the sentinel test) and maps it to the fallback category, so the fallback is
  also returned for a key. The fine-grained lookup has no fallback at all: the label
  \<open>Car\<close> is not a key of \<open>bike_mapping\<close> and gets no category.
\<close>

theorem C4_fallback_counterexample:
  "valid_vehicle (Some ''OTHER'') \<and>
   ''OTHER'' \<in> fst ` set get_vehicle_category_mapping \<and>
   category_of ''OTHER'' = ''Other/Unknown'' \<and>
   valid_vehicle (Some ''Car'') \<and>
   ''Car'' \<notin> fst ` set bike_mapping \<and>
   bike_type_of ''Car'' = None"
  by (simp add: valid_vehicle_def strip_def strip_leading.simps leading_def whitespace_def upper_def upper_char_def
        category_of_def get_vehicle_category_mapping_def bike_type_of_def bike_mapping_def)

text \<open>
  Claim C4, amended. The coarse classifier is total: it returns the table's category for a
  key and \<open>Other/Unknown\<close> for every other string, and it returns \<open>Other/Unknown\<close>
  exactly when the string is not a key or is one of the two keys \<open>UNKNOWN\<close> and
  \<open>OTHER\<close> that the table itself maps there. The fine-grained lookup yields a category
  exactly for the keys of \<open>bike_mapping\<close>, and never \<open>Other/Unknown\<close>.
\<close>

theorem C4_classifier_lookup:
  "(map_of get_vehicle_category_mapping s = None \<longrightarrow> category_of s = ''Other/Unknown'') \<and>
   (\<forall>c. map_of get_vehicle_category_mapping s = Some c \<longrightarrow> category_of s = c) \<and>
   (category_of s = ''Other/Unknown'' \<longleftrightarrow>
      s \<notin> fst ` set get_vehicle_category_mapping \<or> s = ''UNKNOWN'' \<or> s = ''OTHER'') \<and>
   (bike_type_of s = None \<longleftrightarrow> s \<notin> fst ` set bike_mapping) \<and>
   bike_type_of s \<noteq> Some ''Other/Unknown''"
proof -
  have a: "map_of get_vehicle_category_mapping s = None \<longrightarrow> category_of s = ''Other/Unknown''"
    by (simp add: category_of_def)
  have b: "\<forall>c. map_of get_vehicle_category_mapping s = Some c \<longrightarrow> category_of s = c"
    by (simp add: category_of_def)
  have c: "category_of s = ''Other/Unknown'' \<longleftrightarrow>
      s \<notin> fst ` set get_vehicle_category_mapping \<or> s = ''UNKNOWN'' \<or> s = ''OTHER''"
    by (simp add: category_of_def get_vehicle_category_mapping_def)
  have d: "bike_type_of s = None \<longleftrightarrow> s \<notin> fst ` set bike_mapping"
    by (simp add: bike_type_of_def map_of_eq_None_iff)
  have e: "bike_type_of s \<noteq> Some ''Other/Unknown''"
    by (simp add: bike_type_of_def bike_mapping_def)
  from a b c d e show ?thesis by blast
qed

theorem C4_classifier_lookup_witness:
  "map_of get_vehicle_category_mapping ''Car'' = None \<and> category_of ''Car'' = ''Other/Unknown'' \<and>
   map_of get_vehicle_category_mapping ''SEDAN'' = Some ''Passenger Vehicles'' \<and>
   category_of ''SEDAN'' = ''Passenger Vehicles''"
proof -
  have n: "map_of get_vehicle_category_mapping ''Car'' = None"
    by (simp add: get_vehicle_category_mapping_def)
  have s: "map_of get_vehicle_category_mapping ''SEDAN'' = Some ''Passenger Vehicles''"
    by (simp add: get_vehicle_category_mapping_def)
  from C4_classifier_lookup [of "''Car''"] C4_classifier_lookup [of "''SEDAN''"] n s
  show ?thesis by blast
qed

subsection \<open>The projection factor\<close>

lemma project_spec_one: "project_spec 1 b tbl = tbl"
proof (rule ext)
  fix c
  show "project_spec 1 b tbl c = tbl c"
  proof (cases "tbl c")
    case None
    then show ?thesis by (simp add: project_spec_def)
  next
    case (Some m)
    have "(\<lambda>bucket. if bucket = b
             then map_option (\<lambda>t. \<lparr>injured = injured t * 1, killed = killed t * 1\<rparr>) (m bucket)
             else m bucket) = m"
      by (rule ext) (cases "m b"; simp)
    with Some show ?thesis by (simp add: project_spec_def)
  qed
qed

text \<open>
  Claim C9. The factor is always computed (the division is never by zero) and is positive.
  It is \<open>365 / days_in_2025\<close> when the number of observed days is positive and 1 when it is
  zero or negative; with the factor 1 the counts of a row are added as they are, and the
  projector of the specification leaves every tally of the table as it is.
\<close>

theorem C9_zero_guard:
  "\<exists>f. projection_factor days = Inr f \<and> 0 < f \<and>
       (\<forall>d. days = Some d \<and> 0 < d \<longrightarrow> f = 365 / of_int d) \<and>
       (\<forall>d. days = Some d \<and> d \<le> 0 \<longrightarrow>
            f = 1 \<and> apply_projection f year (i, k) = (of_int i, of_int k) \<and>
            project_spec f 2025 tbl = tbl)"
proof (cases days)
  case None
  then show ?thesis by (simp add: projection_factor_def)
next
  case (Some d)
  show ?thesis
  proof (cases "0 < d")
    case True
    with Some show ?thesis by (simp add: projection_factor_def py_truediv_def)
  next
    case False
    with Some show ?thesis
      by (simp add: projection_factor_def apply_projection_def project_spec_one)
  qed
qed

theorem C9_zero_guard_witness:
  "projection_factor (Some 146) = Inr (5 / 2) \<and> projection_factor (Some 0) = Inr 1 \<and>
   apply_projection 1 2025 (7, 2) = (7, 2) \<and>
   project_spec 1 2025 [''Van'' \<mapsto> [2025 \<mapsto> \<lparr>injured = 7, killed = 2\<rparr>]]
     = [''Van'' \<mapsto> [2025 \<mapsto> \<lparr>injured = 7, killed = 2\<rparr>]]"
proof -
  from C9_zero_guard [of "Some 146" 2025 7 2 "[''Van'' \<mapsto> [2025 \<mapsto> \<lparr>injured = 7, killed = 2\<rparr>]]"]
  have a: "projection_factor (Some 146) = Inr (5 / 2)" by auto
  from C9_zero_guard [of "Some 0" 2025 7 2 "[''Van'' \<mapsto> [2025 \<mapsto> \<lparr>injured = 7, killed = 2\<rparr>]]"]
  have b: "projection_factor (Some 0) = Inr 1 \<and>
   apply_projection 1 2025 (7, 2) = (7, 2) \<and>
   project_spec 1 2025 [''Van'' \<mapsto> [2025 \<mapsto> \<lparr>injured = 7, killed = 2\<rparr>]]
     = [''Van'' \<mapsto> [2025 \<mapsto> \<lparr>injured = 7, killed = 2\<rparr>]]" by auto
  from a b show ?thesis by simp
qed

subsection \<open>Removing duplicates and accumulating\<close>

lemma fromkeys_set: "set (fromkeys xs) = set xs"
  by (induction xs rule: fromkeys.induct) auto

lemma fromkeys_distinct: "distinct (fromkeys xs)"
  by (induction xs rule: fromkeys.induct) (auto simp: fromkeys_set)

lemma fromkeys_Nil_iff: "fromkeys xs = [] \<longleftrightarrow> xs = []"
  by (cases xs) auto

lemma fromkeys_length: "length (fromkeys xs) = card (set xs)"
  using distinct_card [OF fromkeys_distinct, of xs] by (simp add: fromkeys_set)

lemma remdups_snoc: "remdups (ys @ [x]) = remdups (filter (\<lambda>y. y \<noteq> x) ys) @ [x]"
  by (induction ys) auto

lemma fromkeys_rev_remdups: "fromkeys xs = rev (remdups (rev xs))"
proof (induction xs rule: fromkeys.induct)
  case 1
  then show ?case by simp
next
  case (2 x xs)
  then show ?case by (simp add: remdups_snoc rev_filter)
qed

lemma tally_at_add_yearly:
  "tally_at (add_yearly y a b tbl c) c' y' =
     (if c' = c \<and> y' = y
      then \<lparr>injured = injured (tally_at tbl c y) + a, killed = killed (tally_at tbl c y) + b\<rparr>
      else tally_at tbl c' y')"
  by (auto simp: tally_at_def add_yearly_def Let_def zero_tally_def split: option.splits)

lemma tally_at_foldl_add_yearly:
  "distinct cs \<Longrightarrow>
   tally_at (foldl (add_yearly y a b) tbl cs) c' y' =
     (if c' \<in> set cs \<and> y' = y
      then \<lparr>injured = injured (tally_at tbl c' y) + a, killed = killed (tally_at tbl c' y) + b\<rparr>
      else tally_at tbl c' y')"
  by (induction cs arbitrary: tbl) (auto simp: tally_at_add_yearly)

lemma flat_at_add_flat:
  "flat_at (add_flat a b tbl k) k' =
     (if k' = k
      then \<lparr>injured = injured (flat_at tbl k) + a, killed = killed (flat_at tbl k) + b\<rparr>
      else flat_at tbl k')"
  by (auto simp: flat_at_def add_flat_def Let_def zero_tally_def split: option.splits)

lemma flat_at_foldl_add_flat:
  "flat_at (foldl (add_flat a b) tbl ks) k' =
     \<lparr>injured = injured (flat_at tbl k') + of_nat (count_list ks k') * a,
      killed = killed (flat_at tbl k') + of_nat (count_list ks k') * b\<rparr>"
  by (induction ks arbitrary: tbl) (auto simp: flat_at_add_flat algebra_simps)

lemma distribute_yearly_Inr:
  "found \<noteq> [] \<Longrightarrow>
   distribute_yearly y I K found tbl =
     Inr (foldl (add_yearly y (I / of_nat (card (set found))) (K / of_nat (card (set found))))
            tbl (fromkeys found))"
  by (simp add: distribute_yearly_def Let_def py_truediv_def fromkeys_Nil_iff fromkeys_length)

lemma distribute_flat_Inr:
  "found \<noteq> [] \<Longrightarrow>
   distribute_flat I K found tbl =
     Inr (foldl (add_flat (I / of_nat (card (set found))) (K / of_nat (card (set found))))
            tbl (fromkeys found))"
  by (simp add: distribute_flat_def Let_def py_truediv_def fromkeys_Nil_iff fromkeys_length)

lemma distribute_raw_Inr:
  "found \<noteq> [] \<Longrightarrow>
   distribute_raw I K found tbl =
     Inr (foldl (add_flat (I / of_nat (length found)) (K / of_nat (length found))) tbl found)"
  by (simp add: distribute_raw_def py_truediv_def)

lemma sum_count_list_set: "(\<Sum>x\<in>set xs. (of_nat (count_list xs x) :: rat)) = of_nat (length xs)"
proof -
  have "(\<Sum>x\<in>set xs. (of_nat (count_list xs x) :: rat)) = of_nat (\<Sum>x\<in>set xs. count_list xs x)"
    by simp
  also have "(\<Sum>x\<in>set xs. count_list xs x) = length xs"
    by (rule sum_count_set) simp_all
  finally show ?thesis .
qed

lemma yearly_row_found:
  assumes "convert_with_year r = Inr (Some (i, k, year))"
      and "vehicles_in_collision (vehicle_cells r) \<noteq> []"
      and "apply_projection pf year (i, k) = (I, K)"
  shows "yearly_row pf tbl r =
           Inr (foldl (add_yearly year
                  (I / of_nat (card (set (vehicles_in_collision (vehicle_cells r)))))
                  (K / of_nat (card (set (vehicles_in_collision (vehicle_cells r))))))
                tbl (fromkeys (vehicles_in_collision (vehicle_cells r))))"
  using assms by (simp add: yearly_row_def Let_def distribute_yearly_Inr)

lemma vehicle_row_found:
  assumes "convert_counts r = Inr (i, k)"
      and "raw_vehicles_in_collision (vehicle_cells r) \<noteq> []"
  shows "vehicle_row tbl r =
           Inr (foldl (add_flat
                  (of_int i / of_nat (length (raw_vehicles_in_collision (vehicle_cells r))))
                  (of_int k / of_nat (length (raw_vehicles_in_collision (vehicle_cells r)))))
                tbl (raw_vehicles_in_collision (vehicle_cells r)))"
  using assms by (simp add: vehicle_row_def distribute_raw_Inr)

lemma category_row_found:
  assumes "convert_counts r = Inr (i, k)"
      and "vehicles_in_collision (vehicle_cells r) \<noteq> []"
  shows "category_row tbl r =
           Inr (foldl (add_flat
                  (of_int i / of_nat (card (set (vehicles_in_collision (vehicle_cells r)))))
                  (of_int k / of_nat (card (set (vehicles_in_collision (vehicle_cells r))))))
                tbl (fromkeys (vehicles_in_collision (vehicle_cells r))))"
  using assms by (simp add: category_row_def distribute_flat_Inr)

lemma sum_const_share:
  assumes "xs \<noteq> []"
  shows "(\<Sum>c\<in>set xs. (a::rat) / of_nat (card (set xs))) = a"
proof -
  have "card (set xs) \<noteq> 0" using assms by (simp add: card_eq_0_iff)
  then show ?thesis by simp
qed

lemma count_list_distinct:
  "distinct xs \<Longrightarrow> count_list xs x = (if x \<in> set xs then 1 else 0)"
  by (induction xs) auto

lemma distribute_yearly_total: "\<exists>t. distribute_yearly y I K found tbl = Inr t"
  by (cases "found = []") (simp_all add: distribute_yearly_Inr, simp add: distribute_yearly_def)

lemma vehicles_in_collision_none:
  "\<forall>v\<in>set cells. \<not> valid_vehicle v \<Longrightarrow> vehicles_in_collision cells = []"
  by (induction cells rule: vehicles_in_collision.induct) auto

lemma convert_counts_finite:
  "injured_cell r \<notin> {PosInf, NegInf} \<Longrightarrow> killed_cell r \<notin> {PosInf, NegInf}
     \<Longrightarrow> \<exists>i k. convert_counts r = Inr (i, k)"
  by (cases "injured_cell r"; cases "killed_cell r")
     (auto simp: convert_counts_def py_int_def or_zero_def except_zero_def)

lemma convert_with_year_finite:
  "injured_cell r \<notin> {PosInf, NegInf} \<Longrightarrow> killed_cell r \<notin> {PosInf, NegInf}
     \<Longrightarrow> year_cell r \<notin> {PosInf, NegInf} \<Longrightarrow> \<exists>x. convert_with_year r = Inr x"
  by (cases "injured_cell r"; cases "killed_cell r"; cases "year_cell r")
     (auto simp: convert_with_year_def py_int_def or_zero_def except_continue_def)

lemma projection_factor_pos: "\<exists>f. projection_factor days = Inr f \<and> 0 < f"
  by (cases days) (auto simp: projection_factor_def py_truediv_def)

lemma add_yearly_nonneg:
  "nonneg_table tbl \<Longrightarrow> 0 \<le> a \<Longrightarrow> 0 \<le> b \<Longrightarrow> nonneg_table (add_yearly y a b tbl c)"
  unfolding nonneg_table_def add_yearly_def Let_def zero_tally_def
  by (auto split: option.splits if_splits)

lemma foldl_add_yearly_nonneg:
  "nonneg_table tbl \<Longrightarrow> 0 \<le> a \<Longrightarrow> 0 \<le> b \<Longrightarrow> nonneg_table (foldl (add_yearly y a b) tbl cs)"
  by (induction cs arbitrary: tbl) (simp_all add: add_yearly_nonneg)

lemma py_int_nonneg: "py_int (or_zero x) = Inr n \<Longrightarrow> (\<forall>q. x = Num q \<longrightarrow> 0 \<le> q) \<Longrightarrow> 0 \<le> n"
  by (cases x) (auto simp: py_int_def or_zero_def split: if_splits)

lemma convert_with_year_nonneg:
  assumes "convert_with_year r = Inr (Some (i, k, year))"
      and "\<forall>q. injured_cell r = Num q \<longrightarrow> 0 \<le> q"
      and "\<forall>q. killed_cell r = Num q \<longrightarrow> 0 \<le> q"
  shows "0 \<le> i \<and> 0 \<le> k"
proof -
  from assms(1) have "py_int (or_zero (injured_cell r)) = Inr i"
    and "py_int (or_zero (killed_cell r)) = Inr k"
    by (auto simp: convert_with_year_def except_continue_def split: sum.splits if_splits)
  with assms(2,3) show ?thesis by (auto dest: py_int_nonneg)
qed

lemma yearly_row_nonneg:
  assumes "nonneg_table tbl" and "0 \<le> pf"
      and "\<forall>q. injured_cell r = Num q \<longrightarrow> 0 \<le> q"
      and "\<forall>q. killed_cell r = Num q \<longrightarrow> 0 \<le> q"
      and "yearly_row pf tbl r = Inr tbl'"
  shows "nonneg_table tbl'"
proof (cases "convert_with_year r")
  case (Inl e)
  with assms(5) show ?thesis by (simp add: yearly_row_def)
next
  case (Inr x)
  show ?thesis
  proof (cases x)
    case None
    with Inr assms(1,5) show ?thesis by (simp add: yearly_row_def)
  next
    case (Some ikY)
    obtain i k year where ikY: "ikY = (i, k, year)" by (cases ikY) auto
    with Some Inr have conv: "convert_with_year r = Inr (Some (i, k, year))" by simp
    from convert_with_year_nonneg [OF conv assms(3,4)] have ik: "0 \<le> i" "0 \<le> k" by simp_all
    obtain I K where p: "apply_projection pf year (i, k) = (I, K)"
      by (cases "apply_projection pf year (i, k)") auto
    with ik assms(2) have IK: "0 \<le> I" "0 \<le> K"
      by (auto simp: apply_projection_def split: if_splits)
    show ?thesis
    proof (cases "vehicles_in_collision (vehicle_cells r) = []")
      case True
      with conv assms(1,5) show ?thesis
        by (simp add: yearly_row_def distribute_yearly_def Let_def)
    next
      case False
      from yearly_row_found [OF conv False p, of tbl] assms(5)
      have "tbl' = foldl (add_yearly year
                  (I / of_nat (card (set (vehicles_in_collision (vehicle_cells r)))))
                  (K / of_nat (card (set (vehicles_in_collision (vehicle_cells r))))))
                tbl (fromkeys (vehicles_in_collision (vehicle_cells r)))"
        by simp
      with assms(1) IK show ?thesis by (simp add: foldl_add_yearly_nonneg)
    qed
  qed
qed

lemma iterrows_yearly_nonneg:
  assumes "\<forall>r\<in>set df. (\<forall>q. injured_cell r = Num q \<longrightarrow> 0 \<le> q) \<and>
                          (\<forall>q. killed_cell r = Num q \<longrightarrow> 0 \<le> q)"
      and "0 \<le> pf" and "nonneg_table tbl"
      and "iterrows (yearly_row pf) tbl df = Inr tbl'"
  shows "nonneg_table tbl'"
  using assms
proof (induction df arbitrary: tbl)
  case Nil
  then show ?case by simp
next
  case (Cons r df)
  from Cons.prems(4) obtain t1 where s: "yearly_row pf tbl r = Inr t1"
    and rest: "iterrows (yearly_row pf) t1 df = Inr tbl'"
    by (auto split: sum.splits)
  from Cons.prems(1) have r: "\<forall>q. injured_cell r = Num q \<longrightarrow> 0 \<le> q"
    "\<forall>q. killed_cell r = Num q \<longrightarrow> 0 \<le> q" by simp_all
  from yearly_row_nonneg [OF Cons.prems(3) Cons.prems(2) r s] have "nonneg_table t1" .
  with Cons.IH [of t1] Cons.prems(1,2) rest show ?case by simp
qed

lemma extract_row_2025_van:
  "extract_yearly_data_by_category [row_2025_van] =
     Inr [''Van'' \<mapsto> [2025 \<mapsto> \<lparr>injured = 5, killed = 5 / 2\<rparr>],
          ''Taxi/Livery'' \<mapsto> [2025 \<mapsto> \<lparr>injured = 5, killed = 5 / 2\<rparr>]]"
proof -
  have pf: "projection_factor (days_in_2025 [row_2025_van]) = Inr (5 / 2)"
    by (simp add: days_in_2025_def row_2025_van_def projection_factor_def py_truediv_def)
  have p: "apply_projection (5 / 2) 2025 (4, 2) = (10, 5)"
    by (simp add: apply_projection_def)
  show ?thesis
    by (simp add: extract_yearly_data_by_category_def pf
          yearly_row_found [OF row_2025_van_convert _ p] row_2025_van_found
          add_yearly_def Let_def zero_tally_def)
qed

lemma yearly_row_total:
  assumes "injured_cell r \<notin> {PosInf, NegInf}" and "killed_cell r \<notin> {PosInf, NegInf}"
      and "year_cell r \<notin> {PosInf, NegInf}"
  shows "\<exists>tbl'. yearly_row pf tbl r = Inr tbl'"
proof -
  from convert_with_year_finite [OF assms] obtain x where x: "convert_with_year r = Inr x"
    by blast
  show ?thesis
  proof (cases x)
    case None
    with x show ?thesis by (simp add: yearly_row_def)
  next
    case (Some ikY)
    obtain i k year where "ikY = (i, k, year)" by (cases ikY) auto
    with Some x show ?thesis
      by (simp add: yearly_row_def Let_def distribute_yearly_total)
  qed
qed

lemma iterrows_yearly_total:
  assumes "\<forall>r\<in>set df. injured_cell r \<notin> {PosInf, NegInf} \<and> killed_cell r \<notin> {PosInf, NegInf} \<and>
                         year_cell r \<notin> {PosInf, NegInf}"
  shows "\<exists>tbl'. iterrows (yearly_row pf) tbl df = Inr tbl'"
  using assms
proof (induction df arbitrary: tbl)
  case Nil
  then show ?case by simp
next
  case (Cons r df)
  from Cons.prems have "injured_cell r \<notin> {PosInf, NegInf}" "killed_cell r \<notin> {PosInf, NegInf}"
    "year_cell r \<notin> {PosInf, NegInf}" by simp_all
  from yearly_row_total [OF this, of pf tbl] obtain t1 where t1: "yearly_row pf tbl r = Inr t1"
    by blast
  from Cons.IH [of t1] Cons.prems obtain t2 where "iterrows (yearly_row pf) t1 df = Inr t2"
    by auto
  with t1 show ?case by simp
qed

subsection \<open>Conservation\<close>

text \<open>
  Claim C1. A record that the fold takes up (the conversion succeeds and at least one label
  is left) adds to the tallies of its categories amounts that sum to the injured count \<open>I\<close>
  and to the killed count \<open>K\<close> that the fold received. In \<open>extract_yearly_data_by_category\<close>
  these are the converted cells after the lines \<open>if year == 2025: injured *= projection_factor\<close>
  (the specification, section 3, applies the factor before the fold); for every other year
  they are the converted cells themselves. In \<open>extract_vehicle_types\<close> the sum runs over
  the labels of the record. The last part is the split itself (the lines from the emptiness
  check to the additions): whatever counts \<open>I\<close> and \<open>K\<close> and whatever non-empty category
  list it is given, it returns a table, and the amounts it adds sum to \<open>I\<close> and to \<open>K\<close>.
\<close>

theorem C1_conservation:
  "(\<forall>i k year I K.
      convert_with_year r = Inr (Some (i, k, year)) \<and>
      vehicles_in_collision (vehicle_cells r) \<noteq> [] \<and>
      apply_projection pf year (i, k) = (I, K) \<longrightarrow>
      (\<exists>tbl'. yearly_row pf tbl r = Inr tbl' \<and>
         (\<Sum>c\<in>set (vehicles_in_collision (vehicle_cells r)).
             injured (tally_at tbl' c year) - injured (tally_at tbl c year)) = I \<and>
         (\<Sum>c\<in>set (vehicles_in_collision (vehicle_cells r)).
             killed (tally_at tbl' c year) - killed (tally_at tbl c year)) = K \<and>
         (year \<noteq> 2025 \<longrightarrow> I = of_int i \<and> K = of_int k))) \<and>
   (\<forall>i k.
      convert_counts r = Inr (i, k) \<and>
      raw_vehicles_in_collision (vehicle_cells r) \<noteq> [] \<longrightarrow>
      (\<exists>ftbl'. vehicle_row ftbl r = Inr ftbl' \<and>
         (\<Sum>v\<in>set (raw_vehicles_in_collision (vehicle_cells r)).
             injured (flat_at ftbl' v) - injured (flat_at ftbl v)) = of_int i \<and>
         (\<Sum>v\<in>set (raw_vehicles_in_collision (vehicle_cells r)).
             killed (flat_at ftbl' v) - killed (flat_at ftbl v)) = of_int k)) \<and>
   (\<forall>found year I K.
      found \<noteq> [] \<longrightarrow>
      (\<exists>tbl'. distribute_yearly year I K found tbl = Inr tbl' \<and>
         (\<Sum>c\<in>set found. injured (tally_at tbl' c year) - injured (tally_at tbl c year)) = I \<and>
         (\<Sum>c\<in>set found. killed (tally_at tbl' c year) - killed (tally_at tbl c year)) = K))"
proof (intro conjI allI impI)
  fix i k year I K
  assume h: "convert_with_year r = Inr (Some (i, k, year)) \<and>
      vehicles_in_collision (vehicle_cells r) \<noteq> [] \<and>
      apply_projection pf year (i, k) = (I, K)"
  let ?found = "vehicles_in_collision (vehicle_cells r)"
  let ?t = "foldl (add_yearly year (I / of_nat (card (set ?found))) (K / of_nat (card (set ?found))))
              tbl (fromkeys ?found)"
  have row: "yearly_row pf tbl r = Inr ?t"
    using h yearly_row_found [of r i k year pf I K tbl] by simp
  have at: "\<And>c. c \<in> set ?found \<Longrightarrow>
      tally_at ?t c year =
        \<lparr>injured = injured (tally_at tbl c year) + I / of_nat (card (set ?found)),
         killed = killed (tally_at tbl c year) + K / of_nat (card (set ?found))\<rparr>"
    by (simp add: tally_at_foldl_add_yearly fromkeys_distinct fromkeys_set)
  have si: "(\<Sum>c\<in>set ?found. injured (tally_at ?t c year) - injured (tally_at tbl c year)) = I"
    using h by (simp add: at sum_const_share)
  have sk: "(\<Sum>c\<in>set ?found. killed (tally_at ?t c year) - killed (tally_at tbl c year)) = K"
    using h by (simp add: at sum_const_share)
  have un: "year \<noteq> 2025 \<longrightarrow> I = of_int i \<and> K = of_int k"
    using h by (auto simp: apply_projection_def)
  from row si sk un
  show "\<exists>tbl'. yearly_row pf tbl r = Inr tbl' \<and>
         (\<Sum>c\<in>set ?found. injured (tally_at tbl' c year) - injured (tally_at tbl c year)) = I \<and>
         (\<Sum>c\<in>set ?found. killed (tally_at tbl' c year) - killed (tally_at tbl c year)) = K \<and>
         (year \<noteq> 2025 \<longrightarrow> I = of_int i \<and> K = of_int k)"
    by blast
next
  fix i k
  assume h: "convert_counts r = Inr (i, k) \<and> raw_vehicles_in_collision (vehicle_cells r) \<noteq> []"
  let ?found = "raw_vehicles_in_collision (vehicle_cells r)"
  let ?a = "of_int i / of_nat (length ?found) :: rat"
  let ?b = "of_int k / of_nat (length ?found) :: rat"
  let ?t = "foldl (add_flat ?a ?b) ftbl ?found"
  have row: "vehicle_row ftbl r = Inr ?t"
    using h vehicle_row_found [of r i k ftbl] by simp
  have len: "(of_nat (length ?found) :: rat) \<noteq> 0" using h by simp
  have si: "(\<Sum>v\<in>set ?found. injured (flat_at ?t v) - injured (flat_at ftbl v)) = of_int i"
  proof -
    have "(\<Sum>v\<in>set ?found. injured (flat_at ?t v) - injured (flat_at ftbl v))
            = (\<Sum>v\<in>set ?found. of_nat (count_list ?found v) * ?a)"
      by (simp add: flat_at_foldl_add_flat)
    also have "\<dots> = (\<Sum>v\<in>set ?found. of_nat (count_list ?found v)) * ?a"
      by (simp only: sum_distrib_right)
    also have "\<dots> = of_nat (length ?found) * ?a"
      by (simp only: sum_count_list_set)
    also have "\<dots> = of_int i" using len by simp
    finally show ?thesis .
  qed
  have sk: "(\<Sum>v\<in>set ?found. killed (flat_at ?t v) - killed (flat_at ftbl v)) = of_int k"
  proof -
    have "(\<Sum>v\<in>set ?found. killed (flat_at ?t v) - killed (flat_at ftbl v))
            = (\<Sum>v\<in>set ?found. of_nat (count_list ?found v) * ?b)"
      by (simp add: flat_at_foldl_add_flat)
    also have "\<dots> = (\<Sum>v\<in>set ?found. of_nat (count_list ?found v)) * ?b"
      by (simp only: sum_distrib_right)
    also have "\<dots> = of_nat (length ?found) * ?b"
      by (simp only: sum_count_list_set)
    also have "\<dots> = of_int k" using len by simp
    finally show ?thesis .
  qed
  from row si sk
  show "\<exists>ftbl'. vehicle_row ftbl r = Inr ftbl' \<and>
         (\<Sum>v\<in>set ?found. injured (flat_at ftbl' v) - injured (flat_at ftbl v)) = of_int i \<and>
         (\<Sum>v\<in>set ?found. killed (flat_at ftbl' v) - killed (flat_at ftbl v)) = of_int k"
    by blast
next
  fix found :: "string list" and year :: int and I K :: rat
  assume h: "found \<noteq> []"
  let ?t = "foldl (add_yearly year (I / of_nat (card (set found))) (K / of_nat (card (set found))))
              tbl (fromkeys found)"
  have row: "distribute_yearly year I K found tbl = Inr ?t"
    using h by (rule distribute_yearly_Inr)
  have at: "\<And>c. c \<in> set found \<Longrightarrow>
      tally_at ?t c year =
        \<lparr>injured = injured (tally_at tbl c year) + I / of_nat (card (set found)),
         killed = killed (tally_at tbl c year) + K / of_nat (card (set found))\<rparr>"
    by (simp add: tally_at_foldl_add_yearly fromkeys_distinct fromkeys_set)
  have si: "(\<Sum>c\<in>set found. injured (tally_at ?t c year) - injured (tally_at tbl c year)) = I"
    using h by (simp add: at sum_const_share)
  have sk: "(\<Sum>c\<in>set found. killed (tally_at ?t c year) - killed (tally_at tbl c year)) = K"
    using h by (simp add: at sum_const_share)
  from row si sk
  show "\<exists>tbl'. distribute_yearly year I K found tbl = Inr tbl' \<and>
         (\<Sum>c\<in>set found. injured (tally_at tbl' c year) - injured (tally_at tbl c year)) = I \<and>
         (\<Sum>c\<in>set found. killed (tally_at tbl' c year) - killed (tally_at tbl c year)) = K"
    by blast
qed

theorem C1_conservation_witness:
  "convert_with_year row_sedan_bike = Inr (Some (3, 1, 2021)) \<and>
   convert_counts row_sedan_bike = Inr (3, 1) \<and>
   (\<exists>tbl'. yearly_row (5 / 2) Map.empty row_sedan_bike = Inr tbl' \<and>
      injured (tally_at tbl' ''Passenger Vehicles'' 2021) +
      injured (tally_at tbl' ''Bicycles/Scooters'' 2021) = 3 \<and>
      killed (tally_at tbl' ''Passenger Vehicles'' 2021) +
      killed (tally_at tbl' ''Bicycles/Scooters'' 2021) = 1) \<and>
   (\<exists>ftbl'. vehicle_row Map.empty row_sedan_bike = Inr ftbl' \<and>
      injured (flat_at ftbl' ''Sedan'') + injured (flat_at ftbl' ''SEDAN'') +
      injured (flat_at ftbl' ''Bike'') = 3 \<and>
      killed (flat_at ftbl' ''Sedan'') + killed (flat_at ftbl' ''SEDAN'') +
      killed (flat_at ftbl' ''Bike'') = 1)"
proof -
  have p: "apply_projection (5 / 2) 2021 (3, 1) = (3, 1)"
    by (simp add: apply_projection_def)
  have z: "\<And>c y. tally_at Map.empty c y = zero_tally" "\<And>v. flat_at Map.empty v = zero_tally"
    by (simp_all add: tally_at_def flat_at_def)
  from C1_conservation [of row_sedan_bike "5 / 2" Map.empty Map.empty]
       row_sedan_bike_convert row_sedan_bike_counts row_sedan_bike_found row_sedan_bike_raw p
  show ?thesis
    by (simp add: z zero_tally_def add.commute add.left_commute)
qed

subsection \<open>The even split\<close>

text \<open>
  Claim C2 as stated fails on \<open>extract_vehicle_types\<close>, one of the two functions it cites:
  that fold neither classifies nor removes duplicates. The labels \<open>Sedan\<close>, \<open>SEDAN\<close> and
  \<open>Bike\<close> of a record with 3 injured and 1 killed get a third each (the split is over the
  three raw labels), not a half each over the two distinct categories.
\<close>

theorem C2_counterexample:
  "raw_vehicles_in_collision (vehicle_cells row_sedan_bike) = [''Sedan'', ''SEDAN'', ''Bike''] \<and>
   fromkeys (vehicles_in_collision (vehicle_cells row_sedan_bike)) =
     [''Passenger Vehicles'', ''Bicycles/Scooters''] \<and>
   vehicle_row Map.empty row_sedan_bike =
     Inr [''Sedan'' \<mapsto> \<lparr>injured = 1, killed = 1 / 3\<rparr>,
          ''SEDAN'' \<mapsto> \<lparr>injured = 1, killed = 1 / 3\<rparr>,
          ''Bike'' \<mapsto> \<lparr>injured = 1, killed = 1 / 3\<rparr>] \<and>
   injured (flat_at [''Sedan'' \<mapsto> \<lparr>injured = 1, killed = 1 / 3\<rparr>,
          ''SEDAN'' \<mapsto> \<lparr>injured = 1, killed = 1 / 3\<rparr>,
          ''Bike'' \<mapsto> \<lparr>injured = 1, killed = 1 / 3\<rparr>] ''Bike'') \<noteq> 3 / 2"
  by (simp add: row_sedan_bike_raw row_sedan_bike_found
        vehicle_row_found [OF row_sedan_bike_counts] add_flat_def zero_tally_def flat_at_def)

text \<open>
  Claim C2, amended. In the two folds over categories (\<open>extract_yearly_data_by_category\<close>
  and \<open>extract_and_categorize_vehicles\<close>) a record that is taken up adds exactly
  \<open>injured / n\<close> and \<open>killed / n\<close> to the tally of each of its \<open>n\<close> distinct categories
  (for the record's year, where the table has years) and changes no other tally. In
  \<open>extract_vehicle_types\<close> there is no classification: with \<open>m\<close> labels listed, every label
  gets \<open>injured / m\<close> and \<open>killed / m\<close> once for each time it is listed.
\<close>

theorem C2_even_split:
  "(\<forall>i k year I K.
      convert_with_year r = Inr (Some (i, k, year)) \<and>
      vehicles_in_collision (vehicle_cells r) \<noteq> [] \<and>
      apply_projection pf year (i, k) = (I, K) \<longrightarrow>
      (\<exists>tbl'. yearly_row pf tbl r = Inr tbl' \<and>
         (\<forall>c y. tally_at tbl' c y =
            (if c \<in> set (vehicles_in_collision (vehicle_cells r)) \<and> y = year
             then \<lparr>injured = injured (tally_at tbl c year)
                               + I / of_nat (card (set (vehicles_in_collision (vehicle_cells r)))),
                   killed = killed (tally_at tbl c year)
                               + K / of_nat (card (set (vehicles_in_collision (vehicle_cells r))))\<rparr>
             else tally_at tbl c y)))) \<and>
   (\<forall>i k.
      convert_counts r = Inr (i, k) \<and>
      vehicles_in_collision (vehicle_cells r) \<noteq> [] \<longrightarrow>
      (\<exists>ctbl'. category_row ctbl r = Inr ctbl' \<and>
         (\<forall>c. flat_at ctbl' c =
            (if c \<in> set (vehicles_in_collision (vehicle_cells r))
             then \<lparr>injured = injured (flat_at ctbl c)
                               + of_int i / of_nat (card (set (vehicles_in_collision (vehicle_cells r)))),
                   killed = killed (flat_at ctbl c)
                               + of_int k / of_nat (card (set (vehicles_in_collision (vehicle_cells r))))\<rparr>
             else flat_at ctbl c)))) \<and>
   (\<forall>i k.
      convert_counts r = Inr (i, k) \<and>
      raw_vehicles_in_collision (vehicle_cells r) \<noteq> [] \<longrightarrow>
      (\<exists>ftbl'. vehicle_row ftbl r = Inr ftbl' \<and>
         (\<forall>v. flat_at ftbl' v =
            \<lparr>injured = injured (flat_at ftbl v)
                 + of_nat (count_list (raw_vehicles_in_collision (vehicle_cells r)) v)
                   * (of_int i / of_nat (length (raw_vehicles_in_collision (vehicle_cells r)))),
             killed = killed (flat_at ftbl v)
                 + of_nat (count_list (raw_vehicles_in_collision (vehicle_cells r)) v)
                   * (of_int k / of_nat (length (raw_vehicles_in_collision (vehicle_cells r))))\<rparr>)))"
proof (intro conjI allI impI)
  fix i k year I K
  assume h: "convert_with_year r = Inr (Some (i, k, year)) \<and>
      vehicles_in_collision (vehicle_cells r) \<noteq> [] \<and>
      apply_projection pf year (i, k) = (I, K)"
  show "\<exists>tbl'. yearly_row pf tbl r = Inr tbl' \<and>
         (\<forall>c y. tally_at tbl' c y =
            (if c \<in> set (vehicles_in_collision (vehicle_cells r)) \<and> y = year
             then \<lparr>injured = injured (tally_at tbl c year)
                               + I / of_nat (card (set (vehicles_in_collision (vehicle_cells r)))),
                   killed = killed (tally_at tbl c year)
                               + K / of_nat (card (set (vehicles_in_collision (vehicle_cells r))))\<rparr>
             else tally_at tbl c y))"
    using h yearly_row_found [of r i k year pf I K tbl]
    by (simp add: tally_at_foldl_add_yearly fromkeys_distinct fromkeys_set)
next
  fix i k
  assume h: "convert_counts r = Inr (i, k) \<and> vehicles_in_collision (vehicle_cells r) \<noteq> []"
  have one: "\<And>c. c \<in> set (vehicles_in_collision (vehicle_cells r)) \<Longrightarrow>
               count_list (fromkeys (vehicles_in_collision (vehicle_cells r))) c = 1"
    by (simp add: count_list_distinct fromkeys_distinct fromkeys_set)
  have none: "\<And>c. c \<notin> set (vehicles_in_collision (vehicle_cells r)) \<Longrightarrow>
               count_list (fromkeys (vehicles_in_collision (vehicle_cells r))) c = 0"
    by (simp add: count_list_0_iff fromkeys_set)
  show "\<exists>ctbl'. category_row ctbl r = Inr ctbl' \<and>
         (\<forall>c. flat_at ctbl' c =
            (if c \<in> set (vehicles_in_collision (vehicle_cells r))
             then \<lparr>injured = injured (flat_at ctbl c)
                               + of_int i / of_nat (card (set (vehicles_in_collision (vehicle_cells r)))),
                   killed = killed (flat_at ctbl c)
                               + of_int k / of_nat (card (set (vehicles_in_collision (vehicle_cells r))))\<rparr>
             else flat_at ctbl c))"
    using h category_row_found [of r i k ctbl]
    by (simp add: flat_at_foldl_add_flat one none)
next
  fix i k
  assume h: "convert_counts r = Inr (i, k) \<and> raw_vehicles_in_collision (vehicle_cells r) \<noteq> []"
  show "\<exists>ftbl'. vehicle_row ftbl r = Inr ftbl' \<and>
         (\<forall>v. flat_at ftbl' v =
            \<lparr>injured = injured (flat_at ftbl v)
                 + of_nat (count_list (raw_vehicles_in_collision (vehicle_cells r)) v)
                   * (of_int i / of_nat (length (raw_vehicles_in_collision (vehicle_cells r)))),
             killed = killed (flat_at ftbl v)
                 + of_nat (count_list (raw_vehicles_in_collision (vehicle_cells r)) v)
                   * (of_int k / of_nat (length (raw_vehicles_in_collision (vehicle_cells r))))\<rparr>)"
    using h vehicle_row_found [of r i k ftbl]
    by (simp add: flat_at_foldl_add_flat)
qed

theorem C2_even_split_witness:
  "fromkeys (vehicles_in_collision (vehicle_cells row_sedan_bike)) =
     [''Passenger Vehicles'', ''Bicycles/Scooters''] \<and>
   (\<exists>tbl'. yearly_row (5 / 2) Map.empty row_sedan_bike = Inr tbl' \<and>
      tally_at tbl' ''Passenger Vehicles'' 2021 = \<lparr>injured = 3 / 2, killed = 1 / 2\<rparr> \<and>
      tally_at tbl' ''Bicycles/Scooters'' 2021 = \<lparr>injured = 3 / 2, killed = 1 / 2\<rparr> \<and>
      tally_at tbl' ''Van'' 2021 = zero_tally) \<and>
   (\<exists>ctbl'. category_row Map.empty row_sedan_bike = Inr ctbl' \<and>
      flat_at ctbl' ''Passenger Vehicles'' = \<lparr>injured = 3 / 2, killed = 1 / 2\<rparr> \<and>
      flat_at ctbl' ''Bicycles/Scooters'' = \<lparr>injured = 3 / 2, killed = 1 / 2\<rparr>) \<and>
   (\<exists>ftbl'. vehicle_row Map.empty row_sedan_bike = Inr ftbl' \<and>
      flat_at ftbl' ''Sedan'' = \<lparr>injured = 1, killed = 1 / 3\<rparr> \<and>
      flat_at ftbl' ''Bike'' = \<lparr>injured = 1, killed = 1 / 3\<rparr>)"
proof -
  have p: "apply_projection (5 / 2) 2021 (3, 1) = (3, 1)"
    by (simp add: apply_projection_def)
  have z: "\<And>c y. tally_at Map.empty c y = zero_tally" "\<And>v. flat_at Map.empty v = zero_tally"
    by (simp_all add: tally_at_def flat_at_def)
  note inst = C2_even_split [of row_sedan_bike "5 / 2" Map.empty Map.empty Map.empty]
  have u: "fromkeys (vehicles_in_collision (vehicle_cells row_sedan_bike)) =
     [''Passenger Vehicles'', ''Bicycles/Scooters'']"
    by (simp add: row_sedan_bike_found)
  from inst row_sedan_bike_convert row_sedan_bike_found p
  obtain tbl' where y: "yearly_row (5 / 2) Map.empty row_sedan_bike = Inr tbl'"
    and yt: "\<And>c y. tally_at tbl' c y =
            (if c \<in> set (vehicles_in_collision (vehicle_cells row_sedan_bike)) \<and> y = 2021
             then \<lparr>injured = injured (tally_at Map.empty c 2021)
                     + 3 / of_nat (card (set (vehicles_in_collision (vehicle_cells row_sedan_bike)))),
                   killed = killed (tally_at Map.empty c 2021)
                     + 1 / of_nat (card (set (vehicles_in_collision (vehicle_cells row_sedan_bike))))\<rparr>
             else tally_at Map.empty c y)"
    by fastforce
  from inst row_sedan_bike_counts row_sedan_bike_found
  obtain ctbl' where c: "category_row Map.empty row_sedan_bike = Inr ctbl'"
    and ct: "\<And>c. flat_at ctbl' c =
            (if c \<in> set (vehicles_in_collision (vehicle_cells row_sedan_bike))
             then \<lparr>injured = injured (flat_at Map.empty c)
                     + 3 / of_nat (card (set (vehicles_in_collision (vehicle_cells row_sedan_bike)))),
                   killed = killed (flat_at Map.empty c)
                     + 1 / of_nat (card (set (vehicles_in_collision (vehicle_cells row_sedan_bike))))\<rparr>
             else flat_at Map.empty c)"
    by fastforce
  from inst row_sedan_bike_counts row_sedan_bike_raw
  obtain ftbl' where f: "vehicle_row Map.empty row_sedan_bike = Inr ftbl'"
    and ft: "\<And>v. flat_at ftbl' v =
            \<lparr>injured = injured (flat_at Map.empty v)
                 + of_nat (count_list (raw_vehicles_in_collision (vehicle_cells row_sedan_bike)) v)
                   * (3 / of_nat (length (raw_vehicles_in_collision (vehicle_cells row_sedan_bike)))),
             killed = killed (flat_at Map.empty v)
                 + of_nat (count_list (raw_vehicles_in_collision (vehicle_cells row_sedan_bike)) v)
                   * (1 / of_nat (length (raw_vehicles_in_collision (vehicle_cells row_sedan_bike))))\<rparr>"
    by fastforce
  have y1: "tally_at tbl' ''Passenger Vehicles'' 2021 = \<lparr>injured = 3 / 2, killed = 1 / 2\<rparr>"
    by (simp add: yt row_sedan_bike_found z zero_tally_def)
  have y2: "tally_at tbl' ''Bicycles/Scooters'' 2021 = \<lparr>injured = 3 / 2, killed = 1 / 2\<rparr>"
    by (simp add: yt row_sedan_bike_found z zero_tally_def)
  have y3: "tally_at tbl' ''Van'' 2021 = zero_tally"
    by (simp add: yt row_sedan_bike_found z)
  have c1: "flat_at ctbl' ''Passenger Vehicles'' = \<lparr>injured = 3 / 2, killed = 1 / 2\<rparr>"
    by (simp add: ct row_sedan_bike_found z zero_tally_def)
  have c2: "flat_at ctbl' ''Bicycles/Scooters'' = \<lparr>injured = 3 / 2, killed = 1 / 2\<rparr>"
    by (simp add: ct row_sedan_bike_found z zero_tally_def)
  have f1: "flat_at ftbl' ''Sedan'' = \<lparr>injured = 1, killed = 1 / 3\<rparr>"
    by (simp add: ft row_sedan_bike_raw z zero_tally_def)
  have f2: "flat_at ftbl' ''Bike'' = \<lparr>injured = 1, killed = 1 / 3\<rparr>"
    by (simp add: ft row_sedan_bike_raw z zero_tally_def)
  from u y y1 y2 y3 c c1 c2 f f1 f2 show ?thesis by blast
qed

subsection \<open>The bike scenario\<close>

lemma bike_scenario_convert:
  "convert_with_year \<lparr>crash_date = c, injured_cell = Num 10, killed_cell = Num 0,
       year_cell = Num (of_int y), vehicle_cells = vs\<rparr> = Inr (Some (10, 0, y))"
  "convert_with_year \<lparr>crash_date = c, injured_cell = Num 6, killed_cell = Num 0,
       year_cell = Num (of_int y), vehicle_cells = vs\<rparr> = Inr (Some (6, 0, y))"
  "convert_with_year \<lparr>crash_date = c, injured_cell = Num 9, killed_cell = Num 0,
       year_cell = Num (of_int y), vehicle_cells = vs\<rparr> = Inr (Some (9, 0, y))"
  by (simp_all add: convert_with_year_def or_zero_def py_int_def)

lemma bike_scenario_bikes:
  "bikes_in_collision [Some ''Bike'', None, None, None, None] = [''Traditional Bicycle'']"
  "bikes_in_collision [Some ''Bike'', Some ''Car'', None, None, None] = [''Traditional Bicycle'']"
  "bikes_in_collision [Some ''BIKE'', Some ''E-BIKE'', None, None, None] =
     [''Traditional Bicycle'', ''E-Bike'']"
  by (simp_all add: bike_type_of_def bike_mapping_def strip_eval)

lemma bike_scenario_rows:
  assumes "2020 \<le> y"
  shows "iterrows (bike_row pf) Map.empty (bike_scenario d y) =
     Inr [''Traditional Bicycle'' \<mapsto>
            [y \<mapsto> \<lparr>injured = 41 / 2 * (if y = 2025 then pf else 1), killed = 0\<rparr>],
          ''E-Bike'' \<mapsto>
            [y \<mapsto> \<lparr>injured = 9 / 2 * (if y = 2025 then pf else 1), killed = 0\<rparr>]]"
proof (cases "y = 2025")
  case True
  then show ?thesis
    by (simp add: bike_scenario_def bike_row_def convert_with_year_def or_zero_def py_int_def
          bike_scenario_bikes apply_projection_def distribute_yearly_def py_truediv_def
          add_yearly_def Let_def zero_tally_def del: bikes_in_collision.simps)
next
  case False
  with assms show ?thesis
    by (simp add: bike_scenario_def bike_row_def bike_scenario_convert bike_scenario_bikes
          apply_projection_def distribute_yearly_def py_truediv_def add_yearly_def Let_def
          zero_tally_def del: bikes_in_collision.simps)
qed

lemma bike_scenario_early:
  assumes "y < 2020"
  shows "iterrows (bike_row pf) Map.empty (bike_scenario d y) = Inr Map.empty"
  using assms by (simp add: bike_scenario_def bike_row_def bike_scenario_convert)

text \<open>
  Claim C3 as stated fails. The fold of the three records by
  \<open>extract_bike_data_by_year\<close> has no tally for \<open>Other/Unknown\<close>: the label \<open>Car\<close> is
  not a key of \<open>bike_mapping\<close> and is dropped, so the 6 injured of the second record go to
  \<open>Traditional Bicycle\<close> alone, which ends at 20.5 and not at 17.5.
\<close>

theorem C3_counterexample:
  "extract_bike_data_by_year (bike_scenario (-1400) 2021) =
     Inr [''Traditional Bicycle'' \<mapsto> [2021 \<mapsto> \<lparr>injured = 41 / 2, killed = 0\<rparr>],
          ''E-Bike'' \<mapsto> [2021 \<mapsto> \<lparr>injured = 9 / 2, killed = 0\<rparr>]] \<and>
   injured (tally_at [''Traditional Bicycle'' \<mapsto> [2021 \<mapsto> \<lparr>injured = 41 / 2, killed = 0\<rparr>],
          ''E-Bike'' \<mapsto> [2021 \<mapsto> \<lparr>injured = 9 / 2, killed = 0\<rparr>]] ''Traditional Bicycle'' 2021)
     \<noteq> 35 / 2 \<and>
   injured (tally_at [''Traditional Bicycle'' \<mapsto> [2021 \<mapsto> \<lparr>injured = 41 / 2, killed = 0\<rparr>],
          ''E-Bike'' \<mapsto> [2021 \<mapsto> \<lparr>injured = 9 / 2, killed = 0\<rparr>]] ''Other/Unknown'' 2021)
     \<noteq> 3"
proof -
  obtain f where "projection_factor (days_in_2025 (bike_scenario (-1400) 2021)) = Inr f"
    using projection_factor_pos by blast
  then have "extract_bike_data_by_year (bike_scenario (-1400) 2021) =
     Inr [''Traditional Bicycle'' \<mapsto> [2021 \<mapsto> \<lparr>injured = 41 / 2, killed = 0\<rparr>],
          ''E-Bike'' \<mapsto> [2021 \<mapsto> \<lparr>injured = 9 / 2, killed = 0\<rparr>]]"
    using bike_scenario_rows [of 2021 f "-1400"]
    by (simp add: extract_bike_data_by_year_def)
  then show ?thesis by (simp add: tally_at_def zero_tally_def)
qed

text \<open>
  Claim C3, amended. For a year from 2020 on, the fold of the three records gives
  \<open>Traditional Bicycle\<close> injured = 20.5 (10 + 6 + 4.5) and \<open>E-Bike\<close> injured = 4.5, no
  entry for \<open>Other/Unknown\<close> or any other category, killed 0, and the total injured 25;
  when the year is 2025 every amount is multiplied by the projection factor of the run.
  For a year before 2020 the table stays empty.
\<close>

theorem C3_scenario:
  "(2020 \<le> y \<longrightarrow>
      (\<exists>pf tbl.
         projection_factor (days_in_2025 (bike_scenario d y)) = Inr pf \<and>
         extract_bike_data_by_year (bike_scenario d y) = Inr tbl \<and>
         tally_at tbl ''Traditional Bicycle'' y =
           \<lparr>injured = 41 / 2 * (if y = 2025 then pf else 1), killed = 0\<rparr> \<and>
         tally_at tbl ''E-Bike'' y =
           \<lparr>injured = 9 / 2 * (if y = 2025 then pf else 1), killed = 0\<rparr> \<and>
         tbl ''Other/Unknown'' = None \<and>
         dom tbl = {''Traditional Bicycle'', ''E-Bike''} \<and>
         injured (tally_at tbl ''Traditional Bicycle'' y) + injured (tally_at tbl ''E-Bike'' y)
           = 25 * (if y = 2025 then pf else 1))) \<and>
   (y < 2020 \<longrightarrow> extract_bike_data_by_year (bike_scenario d y) = Inr Map.empty)"
proof (intro conjI impI)
  assume y: "2020 \<le> y"
  obtain f where f: "projection_factor (days_in_2025 (bike_scenario d y)) = Inr f"
    using projection_factor_pos by blast
  let ?t = "[''Traditional Bicycle'' \<mapsto>
              [y \<mapsto> \<lparr>injured = 41 / 2 * (if y = 2025 then f else 1), killed = 0\<rparr>],
            ''E-Bike'' \<mapsto>
              [y \<mapsto> \<lparr>injured = 9 / 2 * (if y = 2025 then f else 1), killed = 0\<rparr>]]"
  from f have e: "extract_bike_data_by_year (bike_scenario d y) = Inr ?t"
    by (simp add: extract_bike_data_by_year_def bike_scenario_rows [OF y])
  have a: "tally_at ?t ''Traditional Bicycle'' y =
             \<lparr>injured = 41 / 2 * (if y = 2025 then f else 1), killed = 0\<rparr>"
    by (simp add: tally_at_def)
  have b: "tally_at ?t ''E-Bike'' y =
             \<lparr>injured = 9 / 2 * (if y = 2025 then f else 1), killed = 0\<rparr>"
    by (simp add: tally_at_def)
  have c: "?t ''Other/Unknown'' = None" by simp
  have d: "dom ?t = {''Traditional Bicycle'', ''E-Bike''}" by auto
  have s: "injured (tally_at ?t ''Traditional Bicycle'' y) + injured (tally_at ?t ''E-Bike'' y)
             = 25 * (if y = 2025 then f else 1)"
    unfolding a b by simp
  from f e a b c d s
  show "\<exists>pf tbl.
         projection_factor (days_in_2025 (bike_scenario d y)) = Inr pf \<and>
         extract_bike_data_by_year (bike_scenario d y) = Inr tbl \<and>
         tally_at tbl ''Traditional Bicycle'' y =
           \<lparr>injured = 41 / 2 * (if y = 2025 then pf else 1), killed = 0\<rparr> \<and>
         tally_at tbl ''E-Bike'' y =
           \<lparr>injured = 9 / 2 * (if y = 2025 then pf else 1), killed = 0\<rparr> \<and>
         tbl ''Other/Unknown'' = None \<and>
         dom tbl = {''Traditional Bicycle'', ''E-Bike''} \<and>
         injured (tally_at tbl ''Traditional Bicycle'' y) + injured (tally_at tbl ''E-Bike'' y)
           = 25 * (if y = 2025 then pf else 1)"
    by blast
next
  assume y: "y < 2020"
  obtain f where f: "projection_factor (days_in_2025 (bike_scenario d y)) = Inr f"
    using projection_factor_pos by blast
  then show "extract_bike_data_by_year (bike_scenario d y) = Inr Map.empty"
    by (simp add: extract_bike_data_by_year_def bike_scenario_early [OF y])
qed

theorem C3_scenario_witness:
  "(2020 :: int) \<le> 2021 \<and>
   (\<exists>tbl. extract_bike_data_by_year (bike_scenario (-1400) 2021) = Inr tbl \<and>
      tally_at tbl ''Traditional Bicycle'' 2021 = \<lparr>injured = 41 / 2, killed = 0\<rparr> \<and>
      tally_at tbl ''E-Bike'' 2021 = \<lparr>injured = 9 / 2, killed = 0\<rparr> \<and>
      tbl ''Other/Unknown'' = None) \<and>
   (2019 :: int) < 2020 \<and>
   extract_bike_data_by_year (bike_scenario (-2000) 2019) = Inr Map.empty"
proof -
  from C3_scenario [of 2021 "-1400"]
  have a: "\<exists>tbl. extract_bike_data_by_year (bike_scenario (-1400) 2021) = Inr tbl \<and>
      tally_at tbl ''Traditional Bicycle'' 2021 = \<lparr>injured = 41 / 2, killed = 0\<rparr> \<and>
      tally_at tbl ''E-Bike'' 2021 = \<lparr>injured = 9 / 2, killed = 0\<rparr> \<and>
      tbl ''Other/Unknown'' = None"
    by auto
  from C3_scenario [of 2019 "-2000"]
  have b: "extract_bike_data_by_year (bike_scenario (-2000) 2019) = Inr Map.empty"
    by simp
  from a b show ?thesis by simp
qed

subsection \<open>Rows that the conversion rejects\<close>

text \<open>
  Claim C5, evaluated on a row whose injured cell is missing (NaN after coercion) and
  whose killed cell is 1. NaN is truthy, so \<open>or 0\<close> does not replace it, \<open>int\<close> raises
  ValueError, and the handler runs: the two yearly folds skip the row (the table stays
  empty, the killed count is lost), and \<open>extract_vehicle_types\<close> sets both counts to 0.
\<close>

theorem C5_missing_count_evaluated:
  "yearly_row 1 Map.empty row_missing_injured = Inr Map.empty \<and>
   bike_row 1 Map.empty row_missing_injured = Inr Map.empty \<and>
   vehicle_row Map.empty row_missing_injured = Inr [''Bike'' \<mapsto> \<lparr>injured = 0, killed = 0\<rparr>]"
  by (simp add: yearly_row_def bike_row_def vehicle_row_def convert_with_year_def convert_counts_def
        row_missing_injured_def or_zero_def py_int_def except_continue_def except_zero_def
        valid_vehicle_def strip_eval upper_def upper_char_def
        distribute_raw_def py_truediv_def add_flat_def zero_tally_def)

subsection \<open>The sign of the tallies\<close>

text \<open>
  Claim C6 as stated fails: no fold clamps a count. A record with \<open>-1\<close> injured leaves
  the tally of its category at \<open>-1\<close>.
\<close>

theorem C6_counterexample:
  "extract_yearly_data_by_category [row_negative] =
     Inr [''Passenger Vehicles'' \<mapsto> [2021 \<mapsto> \<lparr>injured = - 1, killed = 1\<rparr>]] \<and>
   \<not> nonneg_table [''Passenger Vehicles'' \<mapsto> [2021 \<mapsto> \<lparr>injured = - 1, killed = 1\<rparr>]]"
proof -
  obtain f where pf: "projection_factor (days_in_2025 [row_negative]) = Inr f"
    using projection_factor_pos by blast
  have p: "apply_projection f 2021 (-1, 1) = (-1, 1)"
    by (simp add: apply_projection_def)
  have e: "extract_yearly_data_by_category [row_negative] =
     Inr [''Passenger Vehicles'' \<mapsto> [2021 \<mapsto> \<lparr>injured = - 1, killed = 1\<rparr>]]"
    by (simp add: extract_yearly_data_by_category_def pf
          yearly_row_found [OF row_negative_convert _ p] row_negative_found
          add_yearly_def Let_def zero_tally_def)
  have n: "\<not> nonneg_table [''Passenger Vehicles'' \<mapsto> [2021 \<mapsto> \<lparr>injured = - 1, killed = 1\<rparr>]]"
    unfolding nonneg_table_def
    by (auto intro!: exI [of _ "''Passenger Vehicles''"] exI [of _ 2021])
  from e n show ?thesis by simp
qed

text \<open>
  Claim C6, amended. When no record carries a negative injured or killed number, every
  table that \<open>extract_yearly_data_by_category\<close> reaches has only tallies with both fields
  at least 0: each run of the loop from a table with that property ends in such a table, and
  so does the whole function from the empty table. The function does return a table
  whenever no count and no year of the data is infinite.
\<close>

theorem C6_nonneg_counts:
  assumes "\<forall>r\<in>set df. (\<forall>q. injured_cell r = Num q \<longrightarrow> 0 \<le> q) \<and>
                          (\<forall>q. killed_cell r = Num q \<longrightarrow> 0 \<le> q)"
  shows "(\<forall>pf tbl tbl'. 0 \<le> pf \<and> nonneg_table tbl \<and> iterrows (yearly_row pf) tbl df = Inr tbl'
            \<longrightarrow> nonneg_table tbl') \<and>
         (\<forall>tbl'. extract_yearly_data_by_category df = Inr tbl' \<longrightarrow> nonneg_table tbl') \<and>
         ((\<forall>r\<in>set df. injured_cell r \<notin> {PosInf, NegInf} \<and> killed_cell r \<notin> {PosInf, NegInf} \<and>
                        year_cell r \<notin> {PosInf, NegInf})
            \<longrightarrow> (\<exists>tbl'. extract_yearly_data_by_category df = Inr tbl'))"
proof (intro conjI allI impI)
  fix pf tbl tbl'
  assume "0 \<le> pf \<and> nonneg_table tbl \<and> iterrows (yearly_row pf) tbl df = Inr tbl'"
  with iterrows_yearly_nonneg [OF assms, of pf tbl tbl'] show "nonneg_table tbl'" by simp
next
  fix tbl'
  assume e: "extract_yearly_data_by_category df = Inr tbl'"
  obtain f where f: "projection_factor (days_in_2025 df) = Inr f" "0 < f"
    using projection_factor_pos by blast
  with e have "iterrows (yearly_row f) Map.empty df = Inr tbl'"
    by (simp add: extract_yearly_data_by_category_def)
  moreover have "nonneg_table Map.empty" by (simp add: nonneg_table_def)
  ultimately show "nonneg_table tbl'"
    using iterrows_yearly_nonneg [OF assms, of f Map.empty tbl'] f(2) by simp
next
  assume fin: "\<forall>r\<in>set df. injured_cell r \<notin> {PosInf, NegInf} \<and> killed_cell r \<notin> {PosInf, NegInf} \<and>
                        year_cell r \<notin> {PosInf, NegInf}"
  obtain f where f: "projection_factor (days_in_2025 df) = Inr f"
    using projection_factor_pos by blast
  from iterrows_yearly_total [OF fin, of f Map.empty] f
  show "\<exists>tbl'. extract_yearly_data_by_category df = Inr tbl'"
    by (simp add: extract_yearly_data_by_category_def)
qed

theorem C6_nonneg_counts_witness:
  "injured_cell row_2025_van = Num 4 \<and> killed_cell row_2025_van = Num 2 \<and>
   extract_yearly_data_by_category [row_2025_van] =
     Inr [''Van'' \<mapsto> [2025 \<mapsto> \<lparr>injured = 5, killed = 5 / 2\<rparr>],
          ''Taxi/Livery'' \<mapsto> [2025 \<mapsto> \<lparr>injured = 5, killed = 5 / 2\<rparr>]] \<and>
   nonneg_table [''Van'' \<mapsto> [2025 \<mapsto> \<lparr>injured = 5, killed = 5 / 2\<rparr>],
          ''Taxi/Livery'' \<mapsto> [2025 \<mapsto> \<lparr>injured = 5, killed = 5 / 2\<rparr>]]"
proof -
  have h: "\<forall>r\<in>set [row_2025_van]. (\<forall>q. injured_cell r = Num q \<longrightarrow> 0 \<le> q) \<and>
                          (\<forall>q. killed_cell r = Num q \<longrightarrow> 0 \<le> q)"
    by (simp add: row_2025_van_def)
  have c: "injured_cell row_2025_van = Num 4" "killed_cell row_2025_van = Num 2"
    by (simp_all add: row_2025_van_def)
  from C6_nonneg_counts [OF h] extract_row_2025_van c show ?thesis by blast
qed

subsection \<open>Records without a label\<close>

lemma sentinel_record_skipped:
  assumes "\<forall>v\<in>set (vehicle_cells r).
             v = None \<or>
             (\<exists>s. v = Some s \<and>
                  (strip s = [] \<or> upper (strip s) = ''UNKNOWN'' \<or> upper (strip s) = ''NAN''))"
      and "injured_cell r \<notin> {PosInf, NegInf}" and "killed_cell r \<notin> {PosInf, NegInf}"
  shows "category_row ctbl r = Inr ctbl"
    and "year_cell r \<notin> {PosInf, NegInf} \<Longrightarrow> yearly_row pf tbl r = Inr tbl"
proof -
  from assms(1) have "\<forall>v\<in>set (vehicle_cells r). \<not> valid_vehicle v"
    by (auto simp: valid_vehicle_def)
  then have found: "vehicles_in_collision (vehicle_cells r) = []"
    by (rule vehicles_in_collision_none)
  show "category_row ctbl r = Inr ctbl"
    using convert_counts_finite [OF assms(2,3)] found
    by (auto simp: category_row_def distribute_flat_def)
  show "yearly_row pf tbl r = Inr tbl" if "year_cell r \<notin> {PosInf, NegInf}"
    using convert_with_year_finite [OF assms(2,3) that] found
    by (auto simp: yearly_row_def distribute_yearly_def Let_def split: option.splits)
qed

text \<open>
  Claim C7, evaluated on two records whose label slots are all empty or sentinels. With
  the counts 2 and 1 the record leaves the table as it is. With an infinite injured count
  \<open>int\<close> raises OverflowError, which the handler \<open>except (ValueError, TypeError)\<close> of the
  block commented \<open>Safe conversion of casualty numbers\<close> does not catch: the exception
  leaves \<open>extract_and_categorize_vehicles\<close> and \<open>extract_yearly_data_by_category\<close>, and
  no table is returned.
\<close>

theorem C7_infinite_count_evaluated:
  "vehicles_in_collision (vehicle_cells row_no_vehicle_inf) = [] \<and>
   category_row [''Van'' \<mapsto> \<lparr>injured = 7, killed = 2\<rparr>] row_no_vehicle
     = Inr [''Van'' \<mapsto> \<lparr>injured = 7, killed = 2\<rparr>] \<and>
   category_row [''Van'' \<mapsto> \<lparr>injured = 7, killed = 2\<rparr>] row_no_vehicle_inf = Inl OverflowError \<and>
   extract_and_categorize_vehicles [row_no_vehicle_inf] = Inl OverflowError \<and>
   extract_yearly_data_by_category [row_no_vehicle_inf] = Inl OverflowError"
proof -
  have a: "vehicles_in_collision (vehicle_cells row_no_vehicle_inf) = []"
    by (simp only: row_no_vehicle_inf_def row.select_convs sentinel_cells_found)
  have n: "vehicles_in_collision (vehicle_cells row_no_vehicle) = []"
    by (simp only: row_no_vehicle_def row.select_convs sentinel_cells_found)
  have m: "convert_counts row_no_vehicle = Inr (2, 1)"
    by (simp add: convert_counts_def row_no_vehicle_def or_zero_def py_int_def)
  have b: "category_row [''Van'' \<mapsto> \<lparr>injured = 7, killed = 2\<rparr>] row_no_vehicle
             = Inr [''Van'' \<mapsto> \<lparr>injured = 7, killed = 2\<rparr>]"
    by (simp add: category_row_def n m distribute_flat_def)
  have c: "\<And>t. category_row t row_no_vehicle_inf = Inl OverflowError"
    by (simp add: category_row_def convert_counts_def row_no_vehicle_inf_def or_zero_def
          py_int_def except_zero_def)
  have d: "\<And>f t. yearly_row f t row_no_vehicle_inf = Inl OverflowError"
    by (simp add: yearly_row_def convert_with_year_def row_no_vehicle_inf_def or_zero_def
          py_int_def except_continue_def)
  obtain f where f: "projection_factor (days_in_2025 [row_no_vehicle_inf]) = Inr f"
    using projection_factor_pos by blast
  have e: "extract_yearly_data_by_category [row_no_vehicle_inf] = Inl OverflowError"
    by (simp add: extract_yearly_data_by_category_def f d)
  have g: "extract_and_categorize_vehicles [row_no_vehicle_inf] = Inl OverflowError"
    by (simp add: extract_and_categorize_vehicles_def c)
  from a b c e g show ?thesis by simp
qed

subsection \<open>Projection and summation\<close>







subsection \<open>The 2020 cut-off of the bike fold\<close>

lemma bike_row_before_2020:
  assumes "py_int (year_cell r) = Inr year" and "year < 2020"
      and "injured_cell r \<notin> {PosInf, NegInf}" and "killed_cell r \<notin> {PosInf, NegInf}"
  shows "bike_row pf tbl r = Inr tbl"
  using assms
  by (cases "injured_cell r"; cases "killed_cell r")
     (auto simp: bike_row_def convert_with_year_def py_int_def or_zero_def except_continue_def
           split: sum.splits option.splits if_splits)

text \<open>
  Claim C10, evaluated on two records of the year 2019 with the label \<open>Bike\<close>. With the
  counts 2 and 1 the record is skipped without a trace. With an infinite injured count the
  conversion raises OverflowError before the year is compared with 2020; the handler
  \<open>except (ValueError, TypeError)\<close> of the block commented \<open>Safe conversion of casualty
  numbers and year\<close> does not catch it, and \<open>extract_bike_data_by_year\<close> returns no table.
\<close>

theorem C10_infinite_count_evaluated:
  "py_int (year_cell row_2019_inf) = Inr 2019 \<and>
   bikes_in_collision (vehicle_cells row_2019_inf) = [''Traditional Bicycle''] \<and>
   bike_row (5 / 2) Map.empty row_2019_bike = Inr Map.empty \<and>
   bike_row (5 / 2) Map.empty row_2019_inf = Inl OverflowError \<and>
   extract_bike_data_by_year [row_2019_inf] = Inl OverflowError"
proof -
  have a: "py_int (year_cell row_2019_inf) = Inr 2019"
    by (simp add: row_2019_inf_def py_int_def)
  have b: "bikes_in_collision (vehicle_cells row_2019_inf) = [''Traditional Bicycle'']"
    by (simp only: row_2019_inf_def row.select_convs bike_scenario_bikes)
  have c: "bike_row (5 / 2) Map.empty row_2019_bike = Inr Map.empty"
    by (simp add: bike_row_def convert_with_year_def row_2019_bike_def or_zero_def py_int_def)
  have d: "\<And>f t. bike_row f t row_2019_inf = Inl OverflowError"
    by (simp add: bike_row_def convert_with_year_def row_2019_inf_def or_zero_def py_int_def
          except_continue_def)
  obtain f where f: "projection_factor (days_in_2025 [row_2019_inf]) = Inr f"
    using projection_factor_pos by blast
  have e: "extract_bike_data_by_year [row_2019_inf] = Inl OverflowError"
    by (simp add: extract_bike_data_by_year_def f d)
  from a b c d e show ?thesis by simp
qed

end
